theory Spec2Isabelle
  imports Complex_Main "HOL-Library.Sublist"
begin

section \<open>Conventions of the embedding\<close>

text \<open>
  JavaScript numbers are modelled as mathematical numbers: scores, severities, radii and
  coordinates as \<open>real\<close>, millisecond time stamps (\<open>Date.now()\<close>, \<open>getTime()\<close>) as
  \<open>int\<close>. Rounding error, \<open>NaN\<close> and infinities of the IEEE doubles are outside the model.
  A property that may be \<open>undefined\<close> is an \<open>option\<close>. Every awaited call to the database or
  to an outside service may reject; its result is a sum with the error on the left.
  One evaluation of a function reads the clock once (\<open>now\<close>).
\<close>

datatype err = DbError | ServiceError | MissingFields

text \<open>\<open>Math.round\<close>: the nearest integer, ties towards plus infinity.\<close>

definition js_round :: "real \<Rightarrow> int" where
  "js_round x = \<lfloor>x + 1 / 2\<rfloor>"

text \<open>\<open>s || d\<close> on a string that may be undefined: the empty string is falsy too.\<close>

definition str_or :: "string option \<Rightarrow> string \<Rightarrow> string" where
  "str_or s d = (case s of None \<Rightarrow> d | Some t \<Rightarrow> if t = [] then d else t)"

text \<open>\<open>x || d\<close> on a number that may be undefined: zero is falsy too.\<close>

definition num_or :: "real option \<Rightarrow> real \<Rightarrow> real" where
  "num_or x d = (case x of None \<Rightarrow> d | Some v \<Rightarrow> if v = 0 then d else v)"

section \<open>Data model (models/RiskGrid.js and the events read by the risk engine)\<close>

datatype tier = Standard | High | Critical

datatype riskLevel = Low | Medium | HighRisk | VeryHigh

record sosAlert =
  sos_timestamp :: int
  sos_safetyScore :: "real option"
  sos_reason :: "string option"
  sos_location :: "(real \<times> real) option"

record incident =
  inc_timestamp :: int
  inc_severity :: "real option"
  inc_title :: "string option"
  inc_type :: "string option"
  inc_location :: "(real \<times> real) option"

datatype reasonType = SosAlertReason | IncidentReason

record reason =
  r_type :: reasonType
  r_title :: string
  r_timestamp :: int
  r_severity :: "real option"
  r_eventType :: "string option"

text \<open>A persisted risk cell. \<open>g_location\<close> is \<open>[lng, lat]\<close> as in the schema.\<close>

record riskGrid =
  g_location :: "real \<times> real"
  g_riskScore :: real
  g_riskLevel :: riskLevel
  g_tierLevel :: tier
  g_radius :: real
  g_expiresAt :: int
  g_lastUpdated :: int
  g_gridName :: string
  g_reasons :: "reason list"

text \<open>
  A grid id is the string \<open>lat.toFixed(5) + "_" + lng.toFixed(5)\<close>; it is modelled by the two
  fixed-point numerals it spells, as integers in units of \<open>10\<^sup>-\<^sup>5\<close> degree.
  \<open>processGrid\<close> splits the string and reads both parts back with \<open>parseFloat\<close>.
\<close>

type_synonym gridId = "int \<times> int"

type_synonym store = "gridId \<rightharpoonup> riskGrid"

definition toFixed5 :: "real \<Rightarrow> int" where
  "toFixed5 x = (if x < 0 then - \<lfloor>- x * 100000 + 1 / 2\<rfloor> else \<lfloor>x * 100000 + 1 / 2\<rfloor>)"

definition parseGridId :: "gridId \<Rightarrow> real \<times> real" where
  "parseGridId gid = (real_of_int (fst gid) / 100000, real_of_int (snd gid) / 100000)"

text \<open>
  The collaborators of the risk engine: the two event collections, queried by position
  (\<open>lng\<close>, \<open>lat\<close>, 2.5 km) and window start, or by window start alone, and the naming service
  of \<open>utils/mapboxClient\<close>. The queries on distress events return those of status \<open>new\<close>.
\<close>

record env =
  findSOSNear :: "real \<Rightarrow> real \<Rightarrow> int \<Rightarrow> err + sosAlert list"
  findIncidentsNear :: "real \<Rightarrow> real \<Rightarrow> int \<Rightarrow> err + incident list"
  findRecentSOS :: "int \<Rightarrow> err + sosAlert list"
  findRecentIncidents :: "int \<Rightarrow> err + incident list"
  getGridName :: "real \<Rightarrow> real \<Rightarrow> err + string"



section \<open>The risk engine (services/riskEngineService.js)\<close>

definition GRID_SIZE_DEG :: real where
  "GRID_SIZE_DEG = 45 / 10000"

definition W_INCIDENT :: real where
  "W_INCIDENT = 40 / 100"

definition W_SOS :: real where
  "W_SOS = 50 / 100"

definition W_HISTORY :: real where
  "W_HISTORY = 10 / 100"

definition LOOKBACK_MS :: int where
  "LOOKBACK_MS = 30 * 24 * 60 * 60 * 1000"

definition getGridIdAndCenter :: "real \<Rightarrow> real \<Rightarrow> gridId \<times> (real \<times> real)" where
  "getGridIdAndCenter lat lng =
     (let snapedLat = real_of_int \<lfloor>lat / GRID_SIZE_DEG\<rfloor> * GRID_SIZE_DEG + GRID_SIZE_DEG / 2;
          snapedLng = real_of_int \<lfloor>lng / GRID_SIZE_DEG\<rfloor> * GRID_SIZE_DEG + GRID_SIZE_DEG / 2
      in ((toFixed5 snapedLat, toFixed5 snapedLng), (snapedLng, snapedLat)))"

subsection \<open>Intensity metrics\<close>

definition sosStep :: "int \<times> real \<Rightarrow> sosAlert \<Rightarrow> int \<times> real" where
  "sosStep acc a =
     (let latest = (if sos_timestamp a > fst acc then sos_timestamp a else fst acc);
          minS = (case sos_safetyScore a of
                    None \<Rightarrow> snd acc
                  | Some s \<Rightarrow> if s < snd acc then s else snd acc)
      in (latest, minS))"

definition incStep :: "int \<times> real \<Rightarrow> incident \<Rightarrow> int \<times> real" where
  "incStep acc i =
     (let latest = (if inc_timestamp i > fst acc then inc_timestamp i else fst acc);
          maxS = (case inc_severity i of
                    None \<Rightarrow> snd acc
                  | Some s \<Rightarrow> if s > snd acc then s else snd acc)
      in (latest, maxS))"

text \<open>
  The three running values of the two \<open>forEach\<close> loops: the distress events are read
  first, the incidents second, and the latest event time runs through both.
\<close>

definition minSosSafetyScore :: "sosAlert list \<Rightarrow> real" where
  "minSosSafetyScore sos = snd (foldl sosStep (0, 100) sos)"

definition maxIncidentSeverity :: "sosAlert list \<Rightarrow> incident list \<Rightarrow> real" where
  "maxIncidentSeverity sos incs = snd (foldl incStep (fst (foldl sosStep (0, 100) sos), 0) incs)"

definition latestEventTime :: "sosAlert list \<Rightarrow> incident list \<Rightarrow> int" where
  "latestEventTime sos incs = fst (foldl incStep (fst (foldl sosStep (0, 100) sos), 0) incs)"

subsection \<open>Tier, retention and display radius\<close>

definition classify :: "nat \<Rightarrow> real \<Rightarrow> real \<Rightarrow> tier \<times> int \<times> real" where
  "classify combinedCount maxSev minSafety =
     (if combinedCount > 5 \<or> maxSev \<ge> 8 / 10 \<or> minSafety \<le> 30 then (Critical, 30, 1500)
      else if combinedCount > 2 \<or> maxSev \<ge> 6 / 10 \<or> minSafety \<le> 50 then (High, 14, 1000)
      else (Standard, 7, 500))"

definition tierOf :: "sosAlert list \<Rightarrow> incident list \<Rightarrow> tier" where
  "tierOf sos incs =
     fst (classify (length sos + length incs) (maxIncidentSeverity sos incs) (minSosSafetyScore sos))"

definition durationDays :: "sosAlert list \<Rightarrow> incident list \<Rightarrow> int" where
  "durationDays sos incs =
     fst (snd (classify (length sos + length incs) (maxIncidentSeverity sos incs) (minSosSafetyScore sos)))"

definition displayRadius :: "sosAlert list \<Rightarrow> incident list \<Rightarrow> real" where
  "displayRadius sos incs =
     snd (snd (classify (length sos + length incs) (maxIncidentSeverity sos incs) (minSosSafetyScore sos)))"

definition totalDurationMs :: "sosAlert list \<Rightarrow> incident list \<Rightarrow> int" where
  "totalDurationMs sos incs = durationDays sos incs * 24 * 60 * 60 * 1000"

definition expiresAt :: "sosAlert list \<Rightarrow> incident list \<Rightarrow> int" where
  "expiresAt sos incs = latestEventTime sos incs + totalDurationMs sos incs"

subsection \<open>Decayed scores\<close>

definition lambda :: "sosAlert list \<Rightarrow> incident list \<Rightarrow> real" where
  "lambda sos incs = (23 / 10) / (real_of_int (durationDays sos incs) * 24)"

definition hoursAgo :: "int \<Rightarrow> int \<Rightarrow> real" where
  "hoursAgo now t = real_of_int (now - t) / (1000 * 60 * 60)"

definition sosScore :: "int \<Rightarrow> sosAlert list \<Rightarrow> incident list \<Rightarrow> real" where
  "sosScore now sos incs =
     (if length sos > 0
      then min (foldl (\<lambda>acc alert.
                   acc + (34 / 100) * exp (- lambda sos incs * hoursAgo now (sos_timestamp alert)))
                 0 sos) 1
      else 0)"

definition incidentScore :: "int \<Rightarrow> sosAlert list \<Rightarrow> incident list \<Rightarrow> real" where
  "incidentScore now sos incs =
     (if length incs > 0
      then min (foldl (\<lambda>acc inc.
                   acc + num_or (inc_severity inc) (5 / 10)
                           * exp (- lambda sos incs * hoursAgo now (inc_timestamp inc)))
                 0 incs) 1
      else 0)"

definition historyScore :: "int \<Rightarrow> sosAlert list \<Rightarrow> incident list \<Rightarrow> riskGrid option \<Rightarrow> real" where
  "historyScore now sos incs prevGrid =
     (case prevGrid of
        None \<Rightarrow> 0
      | Some p \<Rightarrow> g_riskScore p * exp (- lambda sos incs * hoursAgo now (g_lastUpdated p)))"

text \<open>Adaptive weighting: the pair \<open>(wIncident, wSos)\<close>.\<close>

definition weights :: "int \<Rightarrow> sosAlert list \<Rightarrow> incident list \<Rightarrow> real \<times> real" where
  "weights now sos incs =
     (if incidentScore now sos incs = 0 \<and> sosScore now sos incs > 0
      then (if tierOf sos incs = Critical then (0, 95 / 100) else (10 / 100, 80 / 100))
      else (W_INCIDENT, W_SOS))"

definition weightedSum :: "int \<Rightarrow> sosAlert list \<Rightarrow> incident list \<Rightarrow> riskGrid option \<Rightarrow> real" where
  "weightedSum now sos incs prevGrid =
     fst (weights now sos incs) * incidentScore now sos incs
     + snd (weights now sos incs) * sosScore now sos incs
     + W_HISTORY * historyScore now sos incs prevGrid"

subsection \<open>Sliding floor, clamp and level\<close>

definition timeRemainingRatio :: "int \<Rightarrow> sosAlert list \<Rightarrow> incident list \<Rightarrow> real" where
  "timeRemainingRatio now sos incs =
     max 0 (min 1 (real_of_int (expiresAt sos incs - now) / real_of_int (totalDurationMs sos incs)))"

text \<open>The floor of the two upper tiers; the Standard tier has none.\<close>

definition dynamicFloor :: "int \<Rightarrow> sosAlert list \<Rightarrow> incident list \<Rightarrow> real option" where
  "dynamicFloor now sos incs =
     (case tierOf sos incs of
        Critical \<Rightarrow> Some ((8 / 10) * timeRemainingRatio now sos incs)
      | High \<Rightarrow> Some ((6 / 10) * timeRemainingRatio now sos incs)
      | Standard \<Rightarrow> None)"

definition finalScore :: "int \<Rightarrow> sosAlert list \<Rightarrow> incident list \<Rightarrow> riskGrid option \<Rightarrow> real" where
  "finalScore now sos incs prevGrid =
     (let s = weightedSum now sos incs prevGrid;
          floored = (case dynamicFloor now sos incs of None \<Rightarrow> s | Some f \<Rightarrow> max s f)
      in min (max floored 0) 1)"

definition levelOf :: "real \<Rightarrow> riskLevel" where
  "levelOf score =
     (if score \<ge> 8 / 10 then VeryHigh
      else if score \<ge> 6 / 10 then HighRisk
      else if score \<ge> 3 / 10 then Medium
      else Low)"

text \<open>The position of a level in the schema's enumeration \<open>Low, Medium, High, Very High\<close>.\<close>

fun levelRank :: "riskLevel \<Rightarrow> nat" where
  "levelRank Low = 0"
| "levelRank Medium = 1"
| "levelRank HighRisk = 2"
| "levelRank VeryHigh = 3"

subsection \<open>Reasons\<close>

definition sosReasonOf :: "sosAlert \<Rightarrow> reason" where
  "sosReasonOf sos =
     \<lparr> r_type = SosAlertReason,
       r_title = str_or (sos_reason sos) ''SOS Alert'',
       r_timestamp = sos_timestamp sos,
       r_severity = Some (num_or (sos_safetyScore sos) 1),
       r_eventType = Some ''sos'' \<rparr>"

definition incReasonOf :: "incident \<Rightarrow> reason" where
  "incReasonOf inc =
     \<lparr> r_type = IncidentReason,
       r_title = str_or (inc_title inc) ''Incident'',
       r_timestamp = inc_timestamp inc,
       r_severity = inc_severity inc,
       r_eventType = inc_type inc \<rparr>"

text \<open>\<open>reasons.sort((a, b) => b.timestamp - a.timestamp)\<close> is a stable sort, newest first.\<close>

definition topReasons :: "sosAlert list \<Rightarrow> incident list \<Rightarrow> reason list" where
  "topReasons sos incs =
     take 10 (sort_key (\<lambda>r. - r_timestamp r) (map sosReasonOf sos @ map incReasonOf incs))"

subsection \<open>processGrid\<close>

definition startsWith :: "string \<Rightarrow> string \<Rightarrow> bool" where
  "startsWith s p = prefix p s"

definition carriedName :: "riskGrid option \<Rightarrow> string option" where
  "carriedName prevGrid =
     (case prevGrid of
        None \<Rightarrow> None
      | Some p \<Rightarrow> if g_gridName p \<noteq> [] \<and> \<not> startsWith (g_gridName p) ''Zone [''
                  then Some (g_gridName p) else None)"

text \<open>The document written by the final upsert.\<close>

definition newCell ::
  "int \<Rightarrow> real \<Rightarrow> real \<Rightarrow> sosAlert list \<Rightarrow> incident list \<Rightarrow> riskGrid option \<Rightarrow> string
     \<Rightarrow> riskGrid" where
  "newCell now lat lng sos incs prevGrid gridName =
     \<lparr> g_location = (lng, lat),
       g_riskScore = finalScore now sos incs prevGrid,
       g_riskLevel = levelOf (finalScore now sos incs prevGrid),
       g_tierLevel = tierOf sos incs,
       g_radius = displayRadius sos incs,
       g_expiresAt = expiresAt sos incs,
       g_lastUpdated = now,
       g_gridName = gridName,
       g_reasons = topReasons sos incs \<rparr>"

text \<open>
  One recomputation: the two event queries, the eviction of an expired cell, the read of
  the previous cell, the name (carried over or asked from the naming service) and the
  upsert. The reads and writes of the cell collection act on the store.
\<close>

definition processGrid :: "env \<Rightarrow> int \<Rightarrow> gridId \<Rightarrow> store \<Rightarrow> err + store" where
  "processGrid e now gridId st =
     (let lat = fst (parseGridId gridId);
          lng = snd (parseGridId gridId);
          windowStart = now - LOOKBACK_MS
      in case findSOSNear e lng lat windowStart of
           Inl x \<Rightarrow> Inl x
         | Inr sos \<Rightarrow>
       (case findIncidentsNear e lng lat windowStart of
           Inl x \<Rightarrow> Inl x
         | Inr incs \<Rightarrow>
           if now > expiresAt sos incs then Inr (st(gridId := None))
           else
             let prevGrid = st gridId;
                 named = (case carriedName prevGrid of
                            Some n \<Rightarrow> Inr n
                          | None \<Rightarrow> getGridName e lat lng)
             in case named of
                  Inl x \<Rightarrow> Inl x
                | Inr gridName \<Rightarrow>
                    Inr (st(gridId \<mapsto> newCell now lat lng sos incs prevGrid gridName))))"

subsection \<open>updateRiskScores\<close>

text \<open>
  The loop \<open>for (const gid of activeGridIds) await processGrid(gid)\<close>: the store after the
  loop, and the error that left it, if one did.
\<close>

fun processAll :: "env \<Rightarrow> int \<Rightarrow> gridId list \<Rightarrow> store \<Rightarrow> err option \<times> store" where
  "processAll e now [] st = (None, st)"
| "processAll e now (gid # gids) st =
     (case processGrid e now gid st of
        Inl x \<Rightarrow> (Some x, st)
      | Inr st' \<Rightarrow> processAll e now gids st')"

text \<open>A JavaScript \<open>Set\<close> keeps the order of first insertion.\<close>

definition addAll :: "'a list \<Rightarrow> 'a list \<Rightarrow> 'a list" where
  "addAll s xs = foldl (\<lambda>acc x. if x \<in> set acc then acc else acc @ [x]) s xs"

definition sosGridIds :: "sosAlert list \<Rightarrow> gridId list" where
  "sosGridIds alerts =
     concat (map (\<lambda>a. case sos_location a of
                         None \<Rightarrow> []
                       | Some (lng, lat) \<Rightarrow> [fst (getGridIdAndCenter lat lng)]) alerts)"

definition incGridIds :: "incident list \<Rightarrow> gridId list" where
  "incGridIds incs =
     concat (map (\<lambda>i. case inc_location i of
                         None \<Rightarrow> []
                       | Some (lng, lat) \<Rightarrow> [fst (getGridIdAndCenter lat lng)]) incs)"

text \<open>
  \<open>existing\<close> is the answer of \<open>RiskGrid.find({})\<close>: the ids of the persisted cells (the
  domain of the store), in the order the database returns them.
\<close>

definition updateRiskScores :: "env \<Rightarrow> int \<Rightarrow> gridId list \<Rightarrow> store \<Rightarrow> err option \<times> store" where
  "updateRiskScores e now existing st =
     (case findRecentSOS e (now - LOOKBACK_MS) of
        Inl x \<Rightarrow> (Some x, st)
      | Inr recentSOS \<Rightarrow>
     (case findRecentIncidents e (now - LOOKBACK_MS) of
        Inl x \<Rightarrow> (Some x, st)
      | Inr recentIncidents \<Rightarrow>
          processAll e now
            (addAll (addAll (addAll [] (sosGridIds recentSOS)) (incGridIds recentIncidents)) existing)
            st))"

section \<open>The safety scorer (services/safetyScoreService.js)\<close>

subsection \<open>Configuration\<close>

definition DANGER_ZONE_CRITICAL_DISTANCE :: real where
  "DANGER_ZONE_CRITICAL_DISTANCE = 100"

definition DANGER_ZONE_HIGH_DISTANCE :: real where
  "DANGER_ZONE_HIGH_DISTANCE = 500"

definition DANGER_ZONE_MEDIUM_DISTANCE :: real where
  "DANGER_ZONE_MEDIUM_DISTANCE = 2000"

definition DANGER_ZONE_LOW_DISTANCE :: real where
  "DANGER_ZONE_LOW_DISTANCE = 5000"

definition RISK_GRID_CRITICAL_DISTANCE :: real where
  "RISK_GRID_CRITICAL_DISTANCE = 100"

definition RISK_GRID_HIGH_DISTANCE :: real where
  "RISK_GRID_HIGH_DISTANCE = 500"

definition RISK_GRID_MEDIUM_DISTANCE :: real where
  "RISK_GRID_MEDIUM_DISTANCE = 1500"

definition RISK_GRID_LOW_DISTANCE :: real where
  "RISK_GRID_LOW_DISTANCE = 3000"

definition BASE_SCORE :: real where
  "BASE_SCORE = 100"

definition MAX_NEARBY_ZONES :: nat where
  "MAX_NEARBY_ZONES = 10"

definition SOS_RADIUS_M :: real where
  "SOS_RADIUS_M = 2500"

definition INCIDENT_RADIUS_M :: real where
  "INCIDENT_RADIUS_M = 4000"

definition SOS_LOOKBACK_DAYS :: int where
  "SOS_LOOKBACK_DAYS = 7"

definition INCIDENT_LOOKBACK_DAYS :: int where
  "INCIDENT_LOOKBACK_DAYS = 7"

definition MAX_SOS_PENALTY :: real where
  "MAX_SOS_PENALTY = 40"

definition MAX_INCIDENT_PENALTY :: real where
  "MAX_INCIDENT_PENALTY = 45"

subsection \<open>Great-circle distance\<close>

text \<open>\<open>Math.atan2(y, x)\<close> on the reals.\<close>

definition atan2 :: "real \<Rightarrow> real \<Rightarrow> real" where
  "atan2 y x =
     (if x > 0 then arctan (y / x)
      else if x < 0 then (if y \<ge> 0 then arctan (y / x) + pi else arctan (y / x) - pi)
      else if y > 0 then pi / 2
      else if y < 0 then - (pi / 2)
      else 0)"

text \<open>The haversine formula; the same function stands in the scorer and in the dispatcher.\<close>

definition calculateDistance :: "real \<Rightarrow> real \<Rightarrow> real \<Rightarrow> real \<Rightarrow> real" where
  "calculateDistance lat1 lng1 lat2 lng2 =
     (let R = 6371000;
          phi1 = lat1 * pi / 180;
          phi2 = lat2 * pi / 180;
          dphi = (lat2 - lat1) * pi / 180;
          dlambda = (lng2 - lng1) * pi / 180;
          a = sin (dphi / 2) * sin (dphi / 2)
              + cos phi1 * cos phi2 * sin (dlambda / 2) * sin (dlambda / 2);
          c = 2 * atan2 (sqrt a) (sqrt (1 - a))
      in R * c)"

subsection \<open>Penalties\<close>

definition getRiskSeverity :: "riskLevel option \<Rightarrow> real" where
  "getRiskSeverity l =
     (case l of
        Some Low \<Rightarrow> 2 / 10
      | Some Medium \<Rightarrow> 5 / 10
      | Some HighRisk \<Rightarrow> 75 / 100
      | Some VeryHigh \<Rightarrow> 1
      | None \<Rightarrow> 3 / 10)"

datatype threatKind = RiskGridThreat | DangerZoneThreat | SosAlertThreat | IncidentThreat

text \<open>
  The four band limits \<open>(critical, high, medium, low)\<close> for a threat of the given kind; a
  custom radius counts when it is given and not zero.
\<close>

definition bandConfig :: "threatKind \<Rightarrow> real option \<Rightarrow> real \<times> real \<times> real \<times> real" where
  "bandConfig kind customRadius =
     (if kind = RiskGridThreat \<and> customRadius \<noteq> None \<and> customRadius \<noteq> Some 0
      then (the customRadius, the customRadius + 500, the customRadius + 1500,
            the customRadius + 3000)
      else if kind = DangerZoneThreat
      then (DANGER_ZONE_CRITICAL_DISTANCE, DANGER_ZONE_HIGH_DISTANCE,
            DANGER_ZONE_MEDIUM_DISTANCE, DANGER_ZONE_LOW_DISTANCE)
      else (RISK_GRID_CRITICAL_DISTANCE, RISK_GRID_HIGH_DISTANCE,
            RISK_GRID_MEDIUM_DISTANCE, RISK_GRID_LOW_DISTANCE))"

definition calculateThreatImpact :: "real \<Rightarrow> real \<Rightarrow> threatKind \<Rightarrow> real option \<Rightarrow> real" where
  "calculateThreatImpact distance severity kind customRadius =
     (case bandConfig kind customRadius of
        (critical, high, medium, low) \<Rightarrow>
          let maxPenalty = (if kind = DangerZoneThreat then 70 else 50)
          in if distance \<le> critical then severity * 1 * maxPenalty
             else if distance \<le> high
             then severity * (7 / 10 + (3 / 10) * (1 - (distance - critical) / (high - critical)))
                    * maxPenalty
             else if distance \<le> medium
             then severity * (4 / 10 + (3 / 10) * (1 - (distance - high) / (medium - high)))
                    * maxPenalty
             else if distance \<le> low
             then severity * (1 / 10 + (3 / 10) * (1 - (distance - medium) / (low - medium)))
                    * maxPenalty
             else 0)"

definition proximityPenalty :: "real \<Rightarrow> real \<Rightarrow> real \<Rightarrow> real \<Rightarrow> real" where
  "proximityPenalty distance maxRadius severity maxPenalty =
     (if distance > maxRadius then 0
      else severity * (1 - distance / maxRadius) * maxPenalty)"

subsection \<open>Reason text\<close>

definition isSpace :: "char \<Rightarrow> bool" where
  "isSpace c = (c \<in> set [CHR '' '', CHR 0x09, CHR 0x0A, CHR 0x0B, CHR 0x0C, CHR 0x0D])"

definition isWordChar :: "char \<Rightarrow> bool" where
  "isWordChar c =
     (let n = (of_char c :: nat)
      in (48 \<le> n \<and> n \<le> 57) \<or> (65 \<le> n \<and> n \<le> 90) \<or> n = 95 \<or> (97 \<le> n \<and> n \<le> 122))"

definition upperChar :: "char \<Rightarrow> char" where
  "upperChar c = (let n = (of_char c :: nat) in if 97 \<le> n \<and> n \<le> 122 then char_of (n - 32) else c)"

definition lowerChar :: "char \<Rightarrow> char" where
  "lowerChar c = (let n = (of_char c :: nat) in if 65 \<le> n \<and> n \<le> 90 then char_of (n + 32) else c)"

definition toUpperCase :: "string \<Rightarrow> string" where
  "toUpperCase s = map upperChar s"

definition trim :: "string \<Rightarrow> string" where
  "trim s = rev (dropWhile isSpace (rev (dropWhile isSpace s)))"

fun includesStr :: "string \<Rightarrow> string \<Rightarrow> bool" where
  "includesStr [] p = (p = [])"
| "includesStr (c # cs) p = (prefix p (c # cs) \<or> includesStr cs p)"

text \<open>
  \<open>clean.replace(/\w\S*/g, ...)\<close>: every run that starts at a word character and extends to
  the next white space gets its first character in upper case and the others in lower
  case. The flag tells whether the scan is inside such a run.
\<close>

fun titleCase :: "bool \<Rightarrow> string \<Rightarrow> string" where
  "titleCase inRun [] = []"
| "titleCase False (c # cs) =
     (if isWordChar c then upperChar c # titleCase True cs else c # titleCase False cs)"
| "titleCase True (c # cs) =
     (if isSpace c then c # titleCase False cs else lowerChar c # titleCase True cs)"

text \<open>Strings are taken over the ASCII alphabet, where case mapping is that of the letters.\<close>

definition formatReasonText :: "string \<Rightarrow> string" where
  "formatReasonText text =
     (if text = [] then ''Safety Concern''
      else let clean = trim text; upper = toUpperCase clean
           in if includesStr upper ''PANIC'' \<or> includesStr upper ''IMMEDIATE'' then ''Emergency Alert''
              else if upper = ''SOS'' then ''Distress Signal''
              else if upper = ''MEDICAL'' then ''Medical Emergency''
              else titleCase False clean)"

subsection \<open>Threats and the inputs of a scoring pass\<close>

datatype zoneType = Circle | Polygon

text \<open>A danger zone; \<open>dz_coords\<close> is \<open>[lat, lng]\<close> as in the schema.\<close>

record dangerZone =
  dz_name :: string
  dz_type :: zoneType
  dz_coords :: "real \<times> real"
  dz_radiusKm :: "real option"
  dz_riskLevel :: "riskLevel option"

text \<open>
  A threat of the result. Its fields \<open>severity\<close>, \<open>coordinates\<close>, \<open>isInside\<close> and
  \<open>timestamp\<close> are labels handed to the caller; no step reads them, and they are left out.
\<close>

record threat =
  t_type :: threatKind
  t_name :: string
  t_category :: "string option"
  t_distance :: int
  t_impact :: int
  t_reasons :: "reason list"

text \<open>The coverage circle of a penalized cell.\<close>

record coverage =
  cov_lat :: real
  cov_lng :: real
  cov_radius :: real

text \<open>
  The four queries of a pass: the nearest cells of score above 0.1 (at most 15, within
  10 km), the danger zones (at most 100), the distress events of status \<open>new\<close> within
  2.5 km and the incidents within 4 km, both since the given time (at most 50 each).
\<close>

record scoreEnv =
  nearbyRiskGrids :: "real \<Rightarrow> real \<Rightarrow> err + riskGrid list"
  nearbyDangerZones :: "err + dangerZone list"
  nearbySOS :: "real \<Rightarrow> real \<Rightarrow> int \<Rightarrow> err + sosAlert list"
  nearbyIncidents :: "real \<Rightarrow> real \<Rightarrow> int \<Rightarrow> err + incident list"

datatype safetyLevel = EXCELLENT | GOOD | FAIR | POOR | CRITICAL

record safetyResult =
  safetyScore :: int
  safetyLevel :: safetyLevel
  safetyColor :: string
  description :: string
  totalThreats :: nat
  nearestThreat :: "threat option"
  threats :: "threat list"
  res_location :: "real \<times> real"
  res_error :: bool

subsection \<open>Step 1: risk cells\<close>

definition gridRadius :: "riskGrid \<Rightarrow> real" where
  "gridRadius grid = (if g_radius grid = 0 then 500 else g_radius grid)"

definition gridDistance :: "real \<Rightarrow> real \<Rightarrow> riskGrid \<Rightarrow> real" where
  "gridDistance lat lng grid = calculateDistance lat lng (snd (g_location grid)) (fst (g_location grid))"

definition gridImpact :: "real \<Rightarrow> real \<Rightarrow> riskGrid \<Rightarrow> real" where
  "gridImpact lat lng grid =
     calculateThreatImpact (gridDistance lat lng grid) (g_riskScore grid) RiskGridThreat
       (Some (gridRadius grid))"

text \<open>A cell is penalized when it is within its monitoring range and its impact is positive.\<close>

definition penalized :: "real \<Rightarrow> real \<Rightarrow> riskGrid \<Rightarrow> bool" where
  "penalized lat lng grid =
     (gridDistance lat lng grid \<le> gridRadius grid + 3000 \<and> gridImpact lat lng grid > 0)"

text \<open>The coverage circle recorded for a penalized cell: its centre and its radius.\<close>

definition coverageOf :: "riskGrid \<Rightarrow> coverage" where
  "coverageOf grid =
     \<lparr> cov_lat = snd (g_location grid), cov_lng = fst (g_location grid),
       cov_radius = gridRadius grid \<rparr>"

definition gridStep ::
  "real \<Rightarrow> real \<Rightarrow> real \<times> threat list \<times> coverage list \<Rightarrow> riskGrid
     \<Rightarrow> real \<times> threat list \<times> coverage list" where
  "gridStep lat lng acc grid =
     (case acc of (totalPenalty, ths, penalizedGridZones) \<Rightarrow>
        if penalized lat lng grid
        then (totalPenalty + gridImpact lat lng grid,
              ths @ [\<lparr> t_type = RiskGridThreat,
                        t_name = (if g_gridName grid = [] then ''Risk Zone'' else g_gridName grid),
                        t_category = None,
                        t_distance = js_round (gridDistance lat lng grid),
                        t_impact = js_round (gridImpact lat lng grid),
                        t_reasons = g_reasons grid \<rparr>],
              penalizedGridZones @ [coverageOf grid])
        else acc)"

subsection \<open>Step 2: danger zones\<close>

text \<open>An entry of \<open>dangerZonesInRange\<close>: the zone, its distance and whether the point is inside.\<close>

definition zoneInRange :: "real \<Rightarrow> real \<Rightarrow> dangerZone \<Rightarrow> (dangerZone \<times> real \<times> bool) list" where
  "zoneInRange lat lng zone =
     (let distance = calculateDistance lat lng (fst (dz_coords zone)) (snd (dz_coords zone))
      in if dz_type zone = Circle \<and> dz_radiusKm zone \<noteq> None \<and> dz_radiusKm zone \<noteq> Some 0
         then (let radiusMeters = the (dz_radiusKm zone) * 1000
               in if distance \<le> radiusMeters then [(zone, 0, True)]
                  else if distance - radiusMeters \<le> DANGER_ZONE_LOW_DISTANCE
                  then [(zone, distance - radiusMeters, False)]
                  else [])
         else if distance \<le> DANGER_ZONE_LOW_DISTANCE then [(zone, distance, False)]
         else [])"

definition dangerZonesInRange :: "real \<Rightarrow> real \<Rightarrow> dangerZone list \<Rightarrow> (dangerZone \<times> real \<times> bool) list" where
  "dangerZonesInRange lat lng zones =
     take MAX_NEARBY_ZONES (sort_key (\<lambda>z. fst (snd z)) (concat (map (zoneInRange lat lng) zones)))"

definition zoneStep :: "real \<times> threat list \<Rightarrow> dangerZone \<times> real \<times> bool \<Rightarrow> real \<times> threat list" where
  "zoneStep acc z =
     (case z of (zone, distance, isInside) \<Rightarrow>
        let severity = getRiskSeverity (dz_riskLevel zone);
            effectiveDistance = (if isInside then 0 else distance);
            impact = calculateThreatImpact effectiveDistance severity DangerZoneThreat None
        in if impact > 0
           then (fst acc + impact,
                 snd acc @ [\<lparr> t_type = DangerZoneThreat, t_name = dz_name zone, t_category = None,
                              t_distance = js_round distance, t_impact = js_round impact,
                              t_reasons = [] \<rparr>])
           else acc)"

subsection \<open>Steps 3 and 4: raw distress events and incidents\<close>

definition isCoveredByGrid :: "coverage list \<Rightarrow> real \<Rightarrow> real \<Rightarrow> bool" where
  "isCoveredByGrid penalizedGridZones pLat pLng =
     list_ex (\<lambda>grid. calculateDistance pLat pLng (cov_lat grid) (cov_lng grid) \<le> cov_radius grid)
       penalizedGridZones"

definition sosSeverity :: "sosAlert \<Rightarrow> real" where
  "sosSeverity sos = max 0 (min 1 ((100 - num_or (sos_safetyScore sos) 70) / 100))"

definition sosLoopStep ::
  "real \<Rightarrow> real \<Rightarrow> coverage list \<Rightarrow> real \<times> threat list \<Rightarrow> sosAlert \<Rightarrow> real \<times> threat list" where
  "sosLoopStep lat lng penalizedGridZones acc sos =
     (case sos_location sos of
        None \<Rightarrow> acc
      | Some (sLng, sLat) \<Rightarrow>
          if isCoveredByGrid penalizedGridZones sLat sLng then acc
          else let distance = calculateDistance lat lng sLat sLng;
                   impact = proximityPenalty distance SOS_RADIUS_M (sosSeverity sos) MAX_SOS_PENALTY
               in if impact > 0
                  then (fst acc + impact,
                        snd acc @ [\<lparr> t_type = SosAlertThreat,
                                     t_name = formatReasonText (str_or (sos_reason sos) ''Nearby SOS''),
                                     t_category = Some ''SOS Alert'',
                                     t_distance = js_round distance, t_impact = js_round impact,
                                     t_reasons = [] \<rparr>])
                  else acc)"

definition incSeverity :: "incident \<Rightarrow> real" where
  "incSeverity inc = max 0 (min 1 (num_or (inc_severity inc) (6 / 10)))"

definition incLoopStep ::
  "real \<Rightarrow> real \<Rightarrow> coverage list \<Rightarrow> real \<times> threat list \<Rightarrow> incident \<Rightarrow> real \<times> threat list" where
  "incLoopStep lat lng penalizedGridZones acc inc =
     (case inc_location inc of
        None \<Rightarrow> acc
      | Some (iLng, iLat) \<Rightarrow>
          if isCoveredByGrid penalizedGridZones iLat iLng then acc
          else let distance = calculateDistance lat lng iLat iLng;
                   impact = proximityPenalty distance INCIDENT_RADIUS_M (incSeverity inc)
                              MAX_INCIDENT_PENALTY
               in if impact > 0
                  then (fst acc + impact,
                        snd acc @ [\<lparr> t_type = IncidentThreat,
                                     t_name = formatReasonText (str_or (inc_title inc) ''Incident''),
                                     t_category = Some (formatReasonText (str_or (inc_type inc) ''Incident'')),
                                     t_distance = js_round distance, t_impact = js_round impact,
                                     t_reasons = [] \<rparr>])
                  else acc)"

subsection \<open>Steps 5 and 6: score, level and description\<close>

text \<open>The accumulated penalty and the threats after the four loops, in the order they were found.\<close>

definition collect ::
  "real \<Rightarrow> real \<Rightarrow> riskGrid list \<Rightarrow> dangerZone list \<Rightarrow> sosAlert list \<Rightarrow> incident list
     \<Rightarrow> real \<times> threat list" where
  "collect lat lng grids zones sos incs =
     (case foldl (gridStep lat lng) (0, [], []) grids of
        (p1, t1, penalizedGridZones) \<Rightarrow>
          foldl (incLoopStep lat lng penalizedGridZones)
            (foldl (sosLoopStep lat lng penalizedGridZones)
               (foldl zoneStep (p1, t1) (dangerZonesInRange lat lng zones))
               sos)
            incs)"

definition bullet :: string where
  "bullet = [CHR 0xE2, CHR 0x80, CHR 0xA2]"

text \<open>A JavaScript \<open>Set\<close> of strings, in insertion order.\<close>

definition setAdd :: "string list \<Rightarrow> string \<Rightarrow> string list" where
  "setAdd s x = (if x \<in> set s then s else s @ [x])"

definition addGridReason :: "string list \<Rightarrow> reason \<Rightarrow> string list" where
  "addGridReason s r =
     (let txt = (case r_eventType r of
                   None \<Rightarrow> r_title r
                 | Some e \<Rightarrow> if e = [] then r_title r else e)
      in if txt \<noteq> [] then setAdd s (formatReasonText txt) else s)"

text \<open>The loop over the sorted threats that fills \<open>uniqueReasons\<close>.\<close>

fun reasonLoop :: "string list \<Rightarrow> threat list \<Rightarrow> string list" where
  "reasonLoop uniqueReasons [] = uniqueReasons"
| "reasonLoop uniqueReasons (t # ts) =
     (if length uniqueReasons \<ge> 3 then uniqueReasons
      else if t_type t = RiskGridThreat \<and> length (t_reasons t) > 0
      then reasonLoop (foldl addGridReason uniqueReasons (t_reasons t)) ts
      else if t_category t \<noteq> None \<and> t_category t \<noteq> Some []
      then reasonLoop (setAdd uniqueReasons (the (t_category t))) ts
      else if t_name t \<noteq> []
      then reasonLoop (setAdd uniqueReasons (formatReasonText (t_name t))) ts
      else reasonLoop uniqueReasons ts)"

fun join :: "string \<Rightarrow> string list \<Rightarrow> string" where
  "join sep [] = []"
| "join sep [x] = x"
| "join sep (x # y # ys) = x @ sep @ join sep (y # ys)"

text \<open>\<open>threats.sort((a, b) => b.impact - a.impact)\<close> is a stable sort, largest impact first.\<close>

definition sortedThreats :: "threat list \<Rightarrow> threat list" where
  "sortedThreats ths = sort_key (\<lambda>t. - t_impact t) ths"

text \<open>The reasons named in the description of a pass that found the threats \<open>ths\<close>.\<close>

definition uniqueReasons :: "int \<Rightarrow> threat list \<Rightarrow> string list" where
  "uniqueReasons score ths =
     (if score < 90 \<and> length ths > 0 then reasonLoop [] (sortedThreats ths) else [])"

definition levelFor :: "int \<Rightarrow> safetyLevel \<times> string \<times> string" where
  "levelFor score =
     (if score \<ge> 90 then (EXCELLENT, ''#10b981'', ''Very Safe Area'')
      else if score \<ge> 70 then (GOOD, ''#3b82f6'', ''Safe Area'')
      else if score \<ge> 50 then (FAIR, ''#f59e0b'', ''Moderate Risk'')
      else if score \<ge> 30 then (POOR, ''#ea580c'', ''High Risk Area'')
      else (CRITICAL, ''#dc2626'', ''Danger Zone''))"

definition describe :: "int \<Rightarrow> threat list \<Rightarrow> string" where
  "describe score ths =
     snd (snd (levelFor score))
     @ (if score < 90 \<and> length ths > 0
        then (if length (uniqueReasons score ths) > 0
              then '' '' @ bullet @ '' Reported issues: '' @ join '', '' (uniqueReasons score ths) @ ''.''
              else '' '' @ bullet @ '' Threats detected nearby.'')
        else if score \<ge> 90 then '' '' @ bullet @ '' Low crime rate reported recently.''
        else [])"

text \<open>The body of the \<open>try\<close> block once its four queries have answered.\<close>

definition scoreFrom ::
  "real \<Rightarrow> real \<Rightarrow> riskGrid list \<Rightarrow> dangerZone list \<Rightarrow> sosAlert list \<Rightarrow> incident list
     \<Rightarrow> safetyResult" where
  "scoreFrom lat lng grids zones sos incs =
     (let totalPenalty = fst (collect lat lng grids zones sos incs);
          ths = sortedThreats (snd (collect lat lng grids zones sos incs));
          score = js_round (max 0 (min 100 (BASE_SCORE - totalPenalty)))
      in \<lparr> safetyScore = score,
           safetyLevel = fst (levelFor score),
           safetyColor = fst (snd (levelFor score)),
           description = describe score (snd (collect lat lng grids zones sos incs)),
           totalThreats = length ths,
           nearestThreat = (case ths of [] \<Rightarrow> None | t # ts \<Rightarrow> Some t),
           threats = take 5 ths,
           res_location = (lat, lng),
           res_error = False \<rparr>)"

text \<open>The answer of the \<open>catch\<close> block.\<close>

definition safeDefault :: "real \<Rightarrow> real \<Rightarrow> safetyResult" where
  "safeDefault lat lng =
     \<lparr> safetyScore = 80,
       safetyLevel = GOOD,
       safetyColor = ''#3b82f6'',
       description = ''Unable to calculate precise safety score. Assuming safe area.'',
       totalThreats = 0,
       nearestThreat = None,
       threats = [],
       res_location = (lat, lng),
       res_error = True \<rparr>"

text \<open>
  The \<open>try\<close> block: a query that rejects throws, and so leaves the block; the loops
  between the queries read what the queries before them returned.
\<close>

definition tryScore :: "scoreEnv \<Rightarrow> int \<Rightarrow> real \<Rightarrow> real \<Rightarrow> err + safetyResult" where
  "tryScore e now lat lng =
     (case nearbyRiskGrids e lat lng of
        Inl x \<Rightarrow> Inl x
      | Inr grids \<Rightarrow>
     (case nearbyDangerZones e of
        Inl x \<Rightarrow> Inl x
      | Inr zones \<Rightarrow>
     (case nearbySOS e lat lng (now - SOS_LOOKBACK_DAYS * 24 * 60 * 60 * 1000) of
        Inl x \<Rightarrow> Inl x
      | Inr sos \<Rightarrow>
     (case nearbyIncidents e lat lng (now - INCIDENT_LOOKBACK_DAYS * 24 * 60 * 60 * 1000) of
        Inl x \<Rightarrow> Inl x
      | Inr incs \<Rightarrow> Inr (scoreFrom lat lng grids zones sos incs)))))"

definition calculateSafetyScore :: "scoreEnv \<Rightarrow> int \<Rightarrow> real \<Rightarrow> real \<Rightarrow> safetyResult" where
  "calculateSafetyScore e now lat lng =
     (case tryScore e now lat lng of
        Inl x \<Rightarrow> safeDefault lat lng
      | Inr r \<Rightarrow> r)"

section \<open>The dispatcher (services/realtimeService.js)\<close>

text \<open>
  The last known location of a connection, as the client sent it: either coordinate may
  be missing.
\<close>

record location =
  loc_lat :: "real option"
  loc_lng :: "real option"

text \<open>A live connection of an end user: \<open>socket.id\<close> and \<open>socket.data.location\<close>.\<close>

record socket =
  sock_id :: string
  sock_location :: "location option"

text \<open>
  \<open>io\<close> is set once \<open>init\<close> has run. \<open>touristSockets\<close> maps an end user to the set of
  its connections, in insertion order. A connection joins the room \<open>tourists\<close> when it
  is put into this map and leaves both when it disconnects, so the members of the room
  are the connections of the map.
\<close>

record dispatcher =
  io_ready :: bool
  touristSockets :: "(string \<times> socket list) list"

record targetArea =
  ta_lat :: real
  ta_lng :: real
  ta_radius :: real

record alertData =
  a_type :: "string option"
  a_title :: "string option"
  a_message :: "string option"
  a_priority :: "string option"
  a_authorityName :: "string option"
  a_authorityId :: "string option"
  a_requiresAcknowledgment :: "bool option"
  a_actionRequired :: "string option"
  a_expiresAt :: "int option"
  a_targetArea :: "targetArea option"

record touristAlert =
  p_alertId :: string
  p_type :: string
  p_title :: string
  p_message :: string
  p_priority :: string
  p_timestamp :: int
  p_authorityName :: string
  p_authorityId :: string
  p_requiresAcknowledgment :: bool
  p_actionRequired :: "string option"
  p_expiresAt :: "int option"
  p_targetArea :: "targetArea option"
  p_distanceFromEvent :: "int option"

text \<open>Truthiness of a string and of a number that may be undefined.\<close>

definition truthyStr :: "string option \<Rightarrow> bool" where
  "truthyStr s = (s \<noteq> None \<and> s \<noteq> Some [])"

definition truthyNum :: "real option \<Rightarrow> bool" where
  "truthyNum x = (x \<noteq> None \<and> x \<noteq> Some 0)"

text \<open>The guard \<open>touristLocation && touristLocation.lat && touristLocation.lng\<close>.\<close>

definition hasLocation :: "socket \<Rightarrow> bool" where
  "hasLocation s =
     (case sock_location s of
        None \<Rightarrow> False
      | Some l \<Rightarrow> truthyNum (loc_lat l) \<and> truthyNum (loc_lng l))"

definition distanceTo :: "targetArea \<Rightarrow> socket \<Rightarrow> real" where
  "distanceTo area s =
     calculateDistance (ta_lat area) (ta_lng area)
       (the (loc_lat (the (sock_location s)))) (the (loc_lng (the (sock_location s))))"

text \<open>
  The payload; \<open>alertId\<close> is the fresh identifier made from the clock and a random suffix.
\<close>

definition touristAlertPayload :: "int \<Rightarrow> string \<Rightarrow> alertData \<Rightarrow> touristAlert" where
  "touristAlertPayload now alertId a =
     \<lparr> p_alertId = alertId,
       p_type = the (a_type a),
       p_title = the (a_title a),
       p_message = the (a_message a),
       p_priority = str_or (a_priority a) ''medium'',
       p_timestamp = now,
       p_authorityName = str_or (a_authorityName a) ''Safety Authority'',
       p_authorityId = str_or (a_authorityId a) ''unknown'',
       p_requiresAcknowledgment = (a_requiresAcknowledgment a = Some True),
       p_actionRequired = (if truthyStr (a_actionRequired a) then a_actionRequired a else None),
       p_expiresAt = (if a_expiresAt a = Some 0 then None else a_expiresAt a),
       p_targetArea = a_targetArea a,
       p_distanceFromEvent = None \<rparr>"

definition allSockets :: "dispatcher \<Rightarrow> socket list" where
  "allSockets d = concat (map snd (touristSockets d))"

definition totalTourists :: "dispatcher \<Rightarrow> nat" where
  "totalTourists d = foldl (\<lambda>n socketSet. n + length (snd socketSet)) 0 (touristSockets d)"

text \<open>What the inner loop does for one connection: the deliveries it makes.\<close>

definition deliverTo :: "targetArea \<Rightarrow> touristAlert \<Rightarrow> socket \<Rightarrow> (socket \<times> touristAlert) list" where
  "deliverTo area payload s =
     (if hasLocation s
      then (if distanceTo area s \<le> ta_radius area
            then [(s, payload\<lparr> p_distanceFromEvent := Some (js_round (distanceTo area s)) \<rparr>)]
            else [])
      else [])"

text \<open>
  The deliveries of one call, each a connection and the payload emitted to it; a thrown
  error is on the left.
\<close>

definition emitAuthorityAlertToTourists ::
  "dispatcher \<Rightarrow> int \<Rightarrow> string \<Rightarrow> alertData \<Rightarrow> err + (socket \<times> touristAlert) list" where
  "emitAuthorityAlertToTourists d now alertId a =
     (if \<not> io_ready d then Inr []
      else if \<not> truthyStr (a_type a) \<or> \<not> truthyStr (a_title a) \<or> \<not> truthyStr (a_message a)
      then Inl MissingFields
      else if totalTourists d = 0 then Inr []
      else case a_targetArea a of
             None \<Rightarrow> Inr (map (\<lambda>s. (s, touristAlertPayload now alertId a)) (allSockets d))
           | Some area \<Rightarrow>
               Inr (concat (map (\<lambda>entry.
                      concat (map (deliverTo area (touristAlertPayload now alertId a)) (snd entry)))
                    (touristSockets d))))"

section \<open>The fallback store (services/fallbackService.js)\<close>

text \<open>
  The status of the cache client: \<open>ready\<close>, \<open>connecting\<close>, or any other (\<open>wait\<close>,
  \<open>reconnecting\<close>, \<open>close\<close>, \<open>end\<close>), for which the code first tries to connect.
\<close>

datatype redisStatus = Ready | Connecting | Idle

text \<open>
  The payload of a distress alert: its identity and the other fields. The cache keeps the
  JSON text of a payload and \<open>getPendingAlert\<close> parses it back; payloads are taken to be
  JSON values, which the text represents exactly.
\<close>

record alert =
  alertId :: string
  alertBody :: string

text \<open>
  A line of the log file: a JSON entry with its level, its message and the payload it may
  carry, or a line that does not parse.
\<close>

datatype logLine = LogEntry string string "alert option" | Malformed string





text \<open>The scan of the log file: the first payload entry of that identity.\<close>

fun scanLog :: "logLine list \<Rightarrow> string \<Rightarrow> alert option" where
  "scanLog [] ident = None"
| "scanLog (Malformed l # ls) ident = scanLog ls ident"
| "scanLog (LogEntry level message payload # ls) ident =
     (if message = ''SOS_PAYLOAD'' \<and> payload \<noteq> None \<and> alertId (the payload) = ident
      then payload
      else scanLog ls ident)"



section \<open>Example inputs\<close>

definition exampleIncident :: incident where
  "exampleIncident =
     \<lparr> inc_timestamp = 1000, inc_severity = Some (9 / 10), inc_title = Some ''Riot'',
       inc_type = Some ''riot'', inc_location = Some (77, 28) \<rparr>"

definition exampleEnv :: env where
  "exampleEnv =
     \<lparr> findSOSNear = (\<lambda>lng lat ws. Inr []),
       findIncidentsNear = (\<lambda>lng lat ws. Inr [exampleIncident]),
       findRecentSOS = (\<lambda>ws. Inr []),
       findRecentIncidents = (\<lambda>ws. Inr [exampleIncident]),
       getGridName = (\<lambda>lat lng. Inr ''Connaught Place'') \<rparr>"

text \<open>A persisted cell with the given centre.\<close>

definition exampleCell :: "real \<Rightarrow> real \<Rightarrow> riskGrid" where
  "exampleCell lng lat =
     \<lparr> g_location = (lng, lat), g_riskScore = 5 / 10, g_riskLevel = Medium, g_tierLevel = Standard,
       g_radius = 500, g_expiresAt = 1700000000000, g_lastUpdated = 1699000000000,
       g_gridName = ''Harbour'', g_reasons = [] \<rparr>"

text \<open>
  A database whose query on distress events fails at latitude 28 and finds no event
  elsewhere.
\<close>

definition failingEnv :: env where
  "failingEnv =
     \<lparr> findSOSNear = (\<lambda>lng lat ws. if lat = 28 then Inl DbError else Inr []),
       findIncidentsNear = (\<lambda>lng lat ws. Inr []),
       findRecentSOS = (\<lambda>ws. Inr []),
       findRecentIncidents = (\<lambda>ws. Inr []),
       getGridName = (\<lambda>lat lng. Inr ''Harbour'') \<rparr>"

definition exampleStore :: store where
  "exampleStore =
     [(2800000, 7700000) \<mapsto> exampleCell 77 28, (1900000, 7200000) \<mapsto> exampleCell 72 19]"

definition mkReason :: "string \<Rightarrow> string \<Rightarrow> reason" where
  "mkReason ty title =
     \<lparr> r_type = IncidentReason, r_title = title, r_timestamp = 1700000000000,
       r_severity = Some (7 / 10), r_eventType = Some ty \<rparr>"

text \<open>A cell whose four events are of four kinds, and a pass that finds it alone.\<close>

definition busyCell :: riskGrid where
  "busyCell =
     \<lparr> g_location = (77, 28), g_riskScore = 1, g_riskLevel = VeryHigh, g_tierLevel = Critical,
       g_radius = 500, g_expiresAt = 1702592000000, g_lastUpdated = 1700000000000,
       g_gridName = ''Old Market'',
       g_reasons = [mkReason ''theft'' ''Phone stolen'', mkReason ''assault'' ''Street fight'',
                    mkReason ''fire'' ''Shop fire'', mkReason ''flood'' ''Road flooded''] \<rparr>"

definition busyEnv :: scoreEnv where
  "busyEnv =
     \<lparr> nearbyRiskGrids = (\<lambda>lat lng. Inr [busyCell]),
       nearbyDangerZones = Inr [],
       nearbySOS = (\<lambda>lat lng since. Inr []),
       nearbyIncidents = (\<lambda>lat lng since. Inr []) \<rparr>"

definition nearSos :: sosAlert where
  "nearSos =
     \<lparr> sos_timestamp = 1700000000000, sos_safetyScore = Some 20, sos_reason = Some ''panic'',
       sos_location = Some (77, 28) \<rparr>"

definition nearIncident :: incident where
  "nearIncident =
     \<lparr> inc_timestamp = 1700000000000, inc_severity = Some (9 / 10), inc_title = Some ''Riot'',
       inc_type = Some ''riot'', inc_location = Some (77, 28) \<rparr>"

text \<open>A pass whose query on distress events is rejected.\<close>

definition brokenEnv :: scoreEnv where
  "brokenEnv =
     \<lparr> nearbyRiskGrids = (\<lambda>lat lng. Inr [busyCell]),
       nearbyDangerZones = Inr [],
       nearbySOS = (\<lambda>lat lng since. Inl DbError),
       nearbyIncidents = (\<lambda>lat lng since. Inr []) \<rparr>"

text \<open>Three connections: one with a location, one on the equator, one without a location.\<close>

definition sockA :: socket where
  "sockA = \<lparr> sock_id = ''s-a'', sock_location = Some \<lparr> loc_lat = Some 28, loc_lng = Some 77 \<rparr> \<rparr>"

definition sockB :: socket where
  "sockB = \<lparr> sock_id = ''s-b'', sock_location = Some \<lparr> loc_lat = Some 0, loc_lng = Some 77 \<rparr> \<rparr>"

definition sockC :: socket where
  "sockC = \<lparr> sock_id = ''s-c'', sock_location = None \<rparr>"

definition exampleDispatcher :: dispatcher where
  "exampleDispatcher =
     \<lparr> io_ready = True, touristSockets = [(''T1'', [sockA]), (''T2'', [sockB, sockC])] \<rparr>"

text \<open>An alert aimed at a point, with the given centre and radius.\<close>

definition alertAt :: "real \<Rightarrow> real \<Rightarrow> real \<Rightarrow> alertData" where
  "alertAt lat lng radius =
     \<lparr> a_type = Some ''weather'', a_title = Some ''Storm'', a_message = Some ''Stay indoors'',
       a_priority = Some ''high'', a_authorityName = None, a_authorityId = None,
       a_requiresAcknowledgment = None, a_actionRequired = None, a_expiresAt = None,
       a_targetArea = Some \<lparr> ta_lat = lat, ta_lng = lng, ta_radius = radius \<rparr> \<rparr>"







section \<open>Properties of the risk engine\<close>

lemma foldl_sosStep_snd:
  "snd (foldl sosStep (t, m) sos) \<le> b \<longleftrightarrow>
     m \<le> b \<or> (\<exists>a\<in>set sos. \<exists>s. sos_safetyScore a = Some s \<and> s \<le> b)"
proof (induction sos arbitrary: t m)
  case Nil
  then show ?case by simp
next
  case (Cons a sos)
  show ?case
  proof (cases "sos_safetyScore a")
    case None
    then show ?thesis using Cons.IH by (simp add: sosStep_def)
  next
    case (Some s)
    then show ?thesis using Cons.IH by (auto simp: sosStep_def Let_def)
  qed
qed

lemma foldl_incStep_snd:
  "b \<le> snd (foldl incStep (t, m) incs) \<longleftrightarrow>
     b \<le> m \<or> (\<exists>i\<in>set incs. \<exists>s. inc_severity i = Some s \<and> b \<le> s)"
proof (induction incs arbitrary: t m)
  case Nil
  then show ?case by simp
next
  case (Cons a incs)
  show ?case
  proof (cases "inc_severity a")
    case None
    then show ?thesis using Cons.IH by (simp add: incStep_def)
  next
    case (Some s)
    then show ?thesis using Cons.IH by (auto simp: incStep_def Let_def)
  qed
qed

lemma minSafety_le:
  "b < 100 \<Longrightarrow> minSosSafetyScore sos \<le> b \<longleftrightarrow> (\<exists>a\<in>set sos. \<exists>s. sos_safetyScore a = Some s \<and> s \<le> b)"
  unfolding minSosSafetyScore_def by (simp add: foldl_sosStep_snd)

lemma maxSeverity_ge:
  "0 < b \<Longrightarrow> b \<le> maxIncidentSeverity sos incs \<longleftrightarrow> (\<exists>i\<in>set incs. \<exists>s. inc_severity i = Some s \<and> b \<le> s)"
  unfolding maxIncidentSeverity_def by (simp add: foldl_incStep_snd)

lemma classify_cases:
  "classify n sev saf = (Critical, 30, 1500) \<or> classify n sev saf = (High, 14, 1000)
   \<or> classify n sev saf = (Standard, 7, 500)"
  by (simp add: classify_def)

lemma processGrid_result:
  assumes "findSOSNear e (snd (parseGridId gid)) (fst (parseGridId gid)) (now - LOOKBACK_MS) = Inr sos"
      and "findIncidentsNear e (snd (parseGridId gid)) (fst (parseGridId gid)) (now - LOOKBACK_MS) = Inr incs"
      and "processGrid e now gid st = Inr st'"
  shows "if now > expiresAt sos incs then st' = st(gid := None)
         else \<exists>cell. st' gid = Some cell
                \<and> g_riskScore cell = finalScore now sos incs (st gid)
                \<and> g_riskLevel cell = levelOf (finalScore now sos incs (st gid))
                \<and> g_tierLevel cell = tierOf sos incs
                \<and> g_radius cell = displayRadius sos incs
                \<and> g_expiresAt cell = expiresAt sos incs"
  using assms
  by (auto simp: processGrid_def newCell_def Let_def split: sum.splits option.splits if_splits)

lemma processGrid_succeeds:
  assumes "findSOSNear e (snd (parseGridId gid)) (fst (parseGridId gid)) (now - LOOKBACK_MS) = Inr sos"
      and "findIncidentsNear e (snd (parseGridId gid)) (fst (parseGridId gid)) (now - LOOKBACK_MS) = Inr incs"
      and "getGridName e (fst (parseGridId gid)) (snd (parseGridId gid)) = Inr n"
  shows "\<exists>st'. processGrid e now gid st = Inr st'"
  using assms by (simp add: processGrid_def Let_def split: option.splits)

text \<open>
  Claim C1. Whenever \<open>processGrid\<close> recomputes a cell from the distress events \<open>sos\<close> and the
  incidents \<open>incs\<close> it found, the tier follows the fixed thresholds: more than 5 events, or an
  incident of severity at least 0.8 (the largest severity is at least 0.8), or a distress
  event with safety score at most 30 (the smallest is at most 30) give Critical, 30 days and
  1500 m; otherwise more than 2 events, or severity at least 0.6, or safety at most 50 give
  High, 14 days and 1000 m; otherwise Standard, 7 days and 500 m. The cell is evicted when
  the retention of its tier after the latest event has passed, and is persisted with that
  tier, expiry and radius otherwise.
\<close>

theorem processGrid_tier_thresholds:
  assumes "findSOSNear e (snd (parseGridId gid)) (fst (parseGridId gid)) (now - LOOKBACK_MS) = Inr sos"
      and "findIncidentsNear e (snd (parseGridId gid)) (fst (parseGridId gid)) (now - LOOKBACK_MS) = Inr incs"
      and "processGrid e now gid st = Inr st'"
  shows "case (if length sos + length incs > 5
                  \<or> (\<exists>i\<in>set incs. \<exists>s. inc_severity i = Some s \<and> 8 / 10 \<le> s)
                  \<or> (\<exists>a\<in>set sos. \<exists>s. sos_safetyScore a = Some s \<and> s \<le> 30)
               then (Critical, 30, 1500)
               else if length sos + length incs > 2
                  \<or> (\<exists>i\<in>set incs. \<exists>s. inc_severity i = Some s \<and> 6 / 10 \<le> s)
                  \<or> (\<exists>a\<in>set sos. \<exists>s. sos_safetyScore a = Some s \<and> s \<le> 50)
               then (High, 14, 1000)
               else (Standard, 7, 500)) of
           (t, days, radius) \<Rightarrow>
             if now > latestEventTime sos incs + days * 24 * 60 * 60 * 1000
             then st' = st(gid := None)
             else \<exists>cell. st' gid = Some cell
                    \<and> g_tierLevel cell = t
                    \<and> g_expiresAt cell = latestEventTime sos incs + days * 24 * 60 * 60 * 1000
                    \<and> g_radius cell = radius"
proof -
  have sev8: "(8 / 10 \<le> maxIncidentSeverity sos incs)
      = (\<exists>i\<in>set incs. \<exists>s. inc_severity i = Some s \<and> 8 / 10 \<le> s)"
    by (rule maxSeverity_ge) simp
  have sev6: "(6 / 10 \<le> maxIncidentSeverity sos incs)
      = (\<exists>i\<in>set incs. \<exists>s. inc_severity i = Some s \<and> 6 / 10 \<le> s)"
    by (rule maxSeverity_ge) simp
  have saf30: "(minSosSafetyScore sos \<le> 30)
      = (\<exists>a\<in>set sos. \<exists>s. sos_safetyScore a = Some s \<and> s \<le> 30)"
    by (rule minSafety_le) simp
  have saf50: "(minSosSafetyScore sos \<le> 50)
      = (\<exists>a\<in>set sos. \<exists>s. sos_safetyScore a = Some s \<and> s \<le> 50)"
    by (rule minSafety_le) simp
  let ?c = "classify (length sos + length incs) (maxIncidentSeverity sos incs)
              (minSosSafetyScore sos)"
  have eq: "(if length sos + length incs > 5
                  \<or> (\<exists>i\<in>set incs. \<exists>s. inc_severity i = Some s \<and> 8 / 10 \<le> s)
                  \<or> (\<exists>a\<in>set sos. \<exists>s. sos_safetyScore a = Some s \<and> s \<le> 30)
               then (Critical, 30, 1500)
               else if length sos + length incs > 2
                  \<or> (\<exists>i\<in>set incs. \<exists>s. inc_severity i = Some s \<and> 6 / 10 \<le> s)
                  \<or> (\<exists>a\<in>set sos. \<exists>s. sos_safetyScore a = Some s \<and> s \<le> 50)
               then (High, 14, 1000)
               else (Standard, 7, 500)) = ?c"
    unfolding classify_def sev8 sev6 saf30 saf50 by (rule refl)
  obtain t days radius where c: "?c = (t, days, radius)"
    by (cases ?c) auto
  have parts: "tierOf sos incs = t" "displayRadius sos incs = radius"
    "expiresAt sos incs = latestEventTime sos incs + days * 24 * 60 * 60 * 1000"
    using c by (simp_all add: tierOf_def displayRadius_def expiresAt_def totalDurationMs_def
        durationDays_def)
  from processGrid_result [OF assms] show ?thesis
    unfolding eq c parts by auto
qed

theorem processGrid_tier_thresholds_witness:
  "\<exists>st' cell. processGrid exampleEnv 1000 (2800000, 7700000) Map.empty = Inr st'
      \<and> st' (2800000, 7700000) = Some cell
      \<and> g_tierLevel cell = Critical
      \<and> g_expiresAt cell = 1000 + 30 * 24 * 60 * 60 * 1000
      \<and> g_radius cell = 1500"
proof -
  obtain st' where ok: "processGrid exampleEnv 1000 (2800000, 7700000) Map.empty = Inr st'"
    using processGrid_succeeds [of exampleEnv "(2800000, 7700000)" 1000 "[]" "[exampleIncident]"]
    by (auto simp: exampleEnv_def)
  have latest: "latestEventTime [] [exampleIncident] = 1000"
    by (simp add: latestEventTime_def incStep_def exampleIncident_def)
  have sev: "inc_severity exampleIncident = Some (9 / 10)"
    by (simp add: exampleIncident_def)
  have q: "findSOSNear exampleEnv (snd (parseGridId (2800000, 7700000)))
             (fst (parseGridId (2800000, 7700000))) (1000 - LOOKBACK_MS) = Inr []"
          "findIncidentsNear exampleEnv (snd (parseGridId (2800000, 7700000)))
             (fst (parseGridId (2800000, 7700000))) (1000 - LOOKBACK_MS) = Inr [exampleIncident]"
    by (simp_all add: exampleEnv_def)
  have crit: "\<exists>i\<in>set [exampleIncident]. \<exists>s. inc_severity i = Some s \<and> 8 / 10 \<le> s"
  proof (rule bexI)
    show "\<exists>s. inc_severity exampleIncident = Some s \<and> 8 / 10 \<le> s"
      by (rule exI [of _ "9 / 10"]) (simp add: sev)
    show "exampleIncident \<in> set [exampleIncident]" by simp
  qed
  from processGrid_tier_thresholds [OF q ok]
  have "\<exists>cell. st' (2800000, 7700000) = Some cell
      \<and> g_tierLevel cell = Critical
      \<and> g_expiresAt cell = 1000 + 30 * 24 * 60 * 60 * 1000
      \<and> g_radius cell = 1500"
    unfolding if_P [OF disjI2 [OF disjI1 [OF crit]]] latest by simp
  with ok show ?thesis by blast
qed

lemma finalScore_bounds: "0 \<le> finalScore now sos incs p \<and> finalScore now sos incs p \<le> 1"
  by (simp add: finalScore_def Let_def)

lemma levelOf_mono: "s1 \<le> s2 \<Longrightarrow> levelRank (levelOf s1) \<le> levelRank (levelOf s2)"
  by (simp add: levelOf_def)

lemma levelOf_bands:
  "(levelOf s = VeryHigh \<longleftrightarrow> 8 / 10 \<le> s)
   \<and> (levelOf s = HighRisk \<longleftrightarrow> 6 / 10 \<le> s \<and> s < 8 / 10)
   \<and> (levelOf s = Medium \<longleftrightarrow> 3 / 10 \<le> s \<and> s < 6 / 10)
   \<and> (levelOf s = Low \<longleftrightarrow> s < 3 / 10)"
  by (simp add: levelOf_def)

lemma processGrid_cell:
  assumes "processGrid e now gid st = Inr st'" and "st' gid = Some cell"
  shows "\<exists>sos incs. findSOSNear e (snd (parseGridId gid)) (fst (parseGridId gid)) (now - LOOKBACK_MS) = Inr sos
     \<and> findIncidentsNear e (snd (parseGridId gid)) (fst (parseGridId gid)) (now - LOOKBACK_MS) = Inr incs
     \<and> now \<le> expiresAt sos incs
     \<and> g_riskScore cell = finalScore now sos incs (st gid)
     \<and> g_riskLevel cell = levelOf (finalScore now sos incs (st gid))"
  using assms
  by (auto simp: processGrid_def newCell_def Let_def split: sum.splits option.splits if_splits)

text \<open>
  Claim C8. The cell that \<open>processGrid\<close> persists has a score between 0 and 1, and its level
  is the function \<open>levelOf\<close> of that score alone: Very High from 0.8, High from 0.6, Medium
  from 0.3, Low below. \<open>levelOf\<close> is monotone: a higher score never has a lower level.
\<close>

theorem processGrid_score_and_level:
  assumes "processGrid e now gid st = Inr st'" and "st' gid = Some cell"
  shows "0 \<le> g_riskScore cell \<and> g_riskScore cell \<le> 1
     \<and> g_riskLevel cell = levelOf (g_riskScore cell)
     \<and> (g_riskLevel cell = VeryHigh \<longleftrightarrow> 8 / 10 \<le> g_riskScore cell)
     \<and> (g_riskLevel cell = HighRisk \<longleftrightarrow> 6 / 10 \<le> g_riskScore cell \<and> g_riskScore cell < 8 / 10)
     \<and> (g_riskLevel cell = Medium \<longleftrightarrow> 3 / 10 \<le> g_riskScore cell \<and> g_riskScore cell < 6 / 10)
     \<and> (g_riskLevel cell = Low \<longleftrightarrow> g_riskScore cell < 3 / 10)
     \<and> (\<forall>s1 s2. s1 \<le> s2 \<longrightarrow> levelRank (levelOf s1) \<le> levelRank (levelOf s2))"
proof -
  from processGrid_cell [OF assms] obtain sos incs where
    s: "g_riskScore cell = finalScore now sos incs (st gid)"
    and l: "g_riskLevel cell = levelOf (finalScore now sos incs (st gid))"
    by blast
  have lv: "g_riskLevel cell = levelOf (g_riskScore cell)"
    using s l by simp
  have b: "0 \<le> g_riskScore cell \<and> g_riskScore cell \<le> 1"
    unfolding s by (rule finalScore_bounds)
  show ?thesis
    using b lv levelOf_bands [of "g_riskScore cell"] levelOf_mono by simp
qed

theorem processGrid_score_and_level_witness:
  "\<exists>st' cell. processGrid exampleEnv 1000 (2800000, 7700000) Map.empty = Inr st'
      \<and> st' (2800000, 7700000) = Some cell
      \<and> 0 \<le> g_riskScore cell \<and> g_riskScore cell \<le> 1
      \<and> g_riskLevel cell = levelOf (g_riskScore cell)"
proof -
  obtain st' where ok: "processGrid exampleEnv 1000 (2800000, 7700000) Map.empty = Inr st'"
    using processGrid_succeeds [of exampleEnv "(2800000, 7700000)" 1000 "[]" "[exampleIncident]"]
    by (auto simp: exampleEnv_def)
  have q: "findSOSNear exampleEnv (snd (parseGridId (2800000, 7700000)))
             (fst (parseGridId (2800000, 7700000))) (1000 - LOOKBACK_MS) = Inr []"
          "findIncidentsNear exampleEnv (snd (parseGridId (2800000, 7700000)))
             (fst (parseGridId (2800000, 7700000))) (1000 - LOOKBACK_MS) = Inr [exampleIncident]"
    by (simp_all add: exampleEnv_def)
  have alive: "\<not> 1000 > expiresAt [] [exampleIncident]"
    by (simp add: expiresAt_def totalDurationMs_def durationDays_def classify_def
        latestEventTime_def incStep_def exampleIncident_def)
  from processGrid_result [OF q ok] alive obtain cell where c: "st' (2800000, 7700000) = Some cell"
    by auto
  from processGrid_score_and_level [OF ok c] ok c show ?thesis by blast
qed




lemma finalScore_ge_floor:
  assumes "dynamicFloor now sos incs = Some f"
  shows "f \<le> finalScore now sos incs p"
proof -
  have "0 \<le> timeRemainingRatio now sos incs \<and> timeRemainingRatio now sos incs \<le> 1"
    by (simp add: timeRemainingRatio_def)
  then have "f \<le> 1"
    using assms by (auto simp: dynamicFloor_def split: tier.splits)
  then show ?thesis
    using assms by (simp add: finalScore_def Let_def)
qed















lemma processAll_append:
  "processAll e now (xs @ ys) st =
     (case processAll e now xs st of
        (Some x, st') \<Rightarrow> (Some x, st')
      | (None, st') \<Rightarrow> processAll e now ys st')"
  by (induction xs arbitrary: st) (auto split: sum.splits)

text \<open>
  Claim C4, amended. \<open>updateRiskScores\<close> recomputes the active cells one after the other and
  does not catch a failure of \<open>processGrid\<close>: the first failing cell ends the pass with its
  error. The cells before it stay recomputed; the failing cell and the cells after it are
  not recomputed in that pass.
\<close>

theorem updateRiskScores_failure_aborts:
  assumes "findRecentSOS e (now - LOOKBACK_MS) = Inr recentSOS"
      and "findRecentIncidents e (now - LOOKBACK_MS) = Inr recentIncidents"
      and "addAll (addAll (addAll [] (sosGridIds recentSOS)) (incGridIds recentIncidents)) existing
             = before @ gid # rest"
      and "processAll e now before st = (None, st1)"
      and "processGrid e now gid st1 = Inl x"
  shows "updateRiskScores e now existing st = (Some x, st1)"
  using assms by (simp add: updateRiskScores_def processAll_append)

lemma failing_cell: "processGrid failingEnv 1700000000000 (2800000, 7700000) st = Inl DbError"
  by (simp add: processGrid_def failingEnv_def parseGridId_def)

lemma empty_cell:
  "processGrid failingEnv 1700000000000 (1900000, 7200000) st = Inr (st((1900000, 7200000) := None))"
  by (simp add: processGrid_def failingEnv_def parseGridId_def expiresAt_def latestEventTime_def
      totalDurationMs_def durationDays_def classify_def maxIncidentSeverity_def
      minSosSafetyScore_def)

theorem updateRiskScores_failure_aborts_witness:
  "updateRiskScores failingEnv 1700000000000 [(1900000, 7200000), (2800000, 7700000)] exampleStore
     = (Some DbError, exampleStore((1900000, 7200000) := None))"
proof -
  have a: "addAll (addAll (addAll [] (sosGridIds [])) (incGridIds []))
             [(1900000, 7200000), (2800000, 7700000 :: int)]
           = [(1900000, 7200000)] @ (2800000, 7700000) # []"
    by (simp add: addAll_def sosGridIds_def incGridIds_def)
  have b: "processAll failingEnv 1700000000000 [(1900000, 7200000)] exampleStore
             = (None, exampleStore((1900000, 7200000) := None))"
    by (simp add: empty_cell)
  show ?thesis
    by (rule updateRiskScores_failure_aborts [OF _ _ a b failing_cell])
       (simp_all add: failingEnv_def)
qed

text \<open>
  The claim as first stated fails: with two persisted cells, the first of which fails, the
  pass ends with the error and leaves the second cell as it was, although recomputing that
  cell alone succeeds (and evicts it).
\<close>

theorem updateRiskScores_isolation_counterexample:
  "updateRiskScores failingEnv 1700000000000 [(2800000, 7700000), (1900000, 7200000)] exampleStore
     = (Some DbError, exampleStore)
   \<and> processGrid failingEnv 1700000000000 (1900000, 7200000) exampleStore
     = Inr (exampleStore((1900000, 7200000) := None))
   \<and> exampleStore (1900000, 7200000) = Some (exampleCell 72 19)"
  by (simp add: updateRiskScores_def failingEnv_def addAll_def sosGridIds_def incGridIds_def
      failing_cell [unfolded failingEnv_def] empty_cell [unfolded failingEnv_def] exampleStore_def)

section \<open>Properties of the safety scorer\<close>

lemma calculateDistance_same: "calculateDistance lat lng lat lng = 0"
  by (simp add: calculateDistance_def atan2_def)

lemma fmt: "formatReasonText ''theft'' = ''Theft''" "formatReasonText ''assault'' = ''Assault''"
   "formatReasonText ''fire'' = ''Fire''" "formatReasonText ''flood'' = ''Flood''"
  by code_simp+

lemma busy_collect:
  "collect 28 77 [busyCell] [] [] [] =
     (50, [\<lparr> t_type = RiskGridThreat, t_name = ''Old Market'', t_category = None, t_distance = 0,
             t_impact = 50, t_reasons = g_reasons busyCell \<rparr>])"
  by (simp add: collect_def gridStep_def penalized_def gridImpact_def gridDistance_def
      calculateDistance_same gridRadius_def calculateThreatImpact_def bandConfig_def js_round_def
      dangerZonesInRange_def busyCell_def)

lemma busy_reasons:
  "uniqueReasons 50 (snd (collect 28 77 [busyCell] [] [] [])) = [''Theft'', ''Assault'', ''Fire'', ''Flood'']"
  unfolding busy_collect
  by (simp add: uniqueReasons_def sortedThreats_def busyCell_def addGridReason_def mkReason_def
      fmt setAdd_def)

text \<open>
  Claim C9 does not hold of the code. The size of \<open>uniqueReasons\<close> is tested once per threat,
  before the threat is read, while a cell adds all its reasons at once: a single cell with
  four kinds of events gives four reasons in the description, one more than the limit of
  three that the loop states.
\<close>

theorem reasons_exceed_three:
  "description (calculateSafetyScore busyEnv 1700000000000 28 77)
     = ''Moderate Risk '' @ bullet @ '' Reported issues: Theft, Assault, Fire, Flood.''
   \<and> safetyScore (calculateSafetyScore busyEnv 1700000000000 28 77) = 50
   \<and> length (uniqueReasons 50 (snd (collect 28 77 [busyCell] [] [] []))) = 4"
  by (simp add: calculateSafetyScore_def tryScore_def busyEnv_def scoreFrom_def busy_collect [simplified]
      busy_reasons [unfolded busy_collect, simplified]
      describe_def levelFor_def BASE_SCORE_def js_round_def Let_def)

lemma gridStep_zones:
  "snd (snd (foldl (gridStep lat lng) (p, ts, zs) grids))
     = zs @ map coverageOf (filter (penalized lat lng) grids)"
proof (induction grids arbitrary: p ts zs)
  case Nil
  then show ?case by simp
next
  case (Cons g grids)
  show ?case
  proof (cases "penalized lat lng g")
    case True
    then show ?thesis
      using Cons.IH by (simp add: gridStep_def coverageOf_def)
  next
    case False
    then show ?thesis
      using Cons.IH by (simp add: gridStep_def)
  qed
qed

lemma covered_by_penalized:
  assumes "grid \<in> set grids" and "penalized lat lng grid"
      and "calculateDistance pLat pLng (snd (g_location grid)) (fst (g_location grid)) < gridRadius grid"
  shows "isCoveredByGrid (snd (snd (foldl (gridStep lat lng) (0, [], []) grids))) pLat pLng"
proof -
  have "coverageOf grid \<in> set (map coverageOf (filter (penalized lat lng) grids))"
    using assms(1,2) by simp
  moreover have "calculateDistance pLat pLng (cov_lat (coverageOf grid)) (cov_lng (coverageOf grid))
                   \<le> cov_radius (coverageOf grid)"
    using assms(3) by (simp add: coverageOf_def)
  ultimately show ?thesis
    unfolding isCoveredByGrid_def gridStep_zones list_ex_iff by (intro bexI [of _ "coverageOf grid"]) simp_all
qed

lemma sosLoopStep_covered:
  assumes "sos_location s = Some (pLng, pLat)" and "isCoveredByGrid zs pLat pLng"
  shows "sosLoopStep lat lng zs acc s = acc"
  using assms by (simp add: sosLoopStep_def)

lemma incLoopStep_covered:
  assumes "inc_location i = Some (pLng, pLat)" and "isCoveredByGrid zs pLat pLng"
  shows "incLoopStep lat lng zs acc i = acc"
  using assms by (simp add: incLoopStep_def)

lemma collect_skip_sos:
  assumes "grid \<in> set grids" and "penalized lat lng grid"
      and "calculateDistance pLat pLng (snd (g_location grid)) (fst (g_location grid)) < gridRadius grid"
      and "sos_location s = Some (pLng, pLat)"
  shows "collect lat lng grids zones (sos1 @ s # sos2) incs = collect lat lng grids zones (sos1 @ sos2) incs"
proof -
  obtain p1 t1 zs where f: "foldl (gridStep lat lng) (0, [], []) grids = (p1, t1, zs)"
    by (cases "foldl (gridStep lat lng) (0, [], []) grids") auto
  have "isCoveredByGrid zs pLat pLng"
    using covered_by_penalized [OF assms(1-3)] f by simp
  then have "\<And>acc. sosLoopStep lat lng zs acc s = acc"
    using assms(4) by (simp add: sosLoopStep_covered)
  then show ?thesis
    by (simp add: collect_def f)
qed

lemma collect_skip_inc:
  assumes "grid \<in> set grids" and "penalized lat lng grid"
      and "calculateDistance pLat pLng (snd (g_location grid)) (fst (g_location grid)) < gridRadius grid"
      and "inc_location i = Some (pLng, pLat)"
  shows "collect lat lng grids zones sos (incs1 @ i # incs2) = collect lat lng grids zones sos (incs1 @ incs2)"
proof -
  obtain p1 t1 zs where f: "foldl (gridStep lat lng) (0, [], []) grids = (p1, t1, zs)"
    by (cases "foldl (gridStep lat lng) (0, [], []) grids") auto
  have "isCoveredByGrid zs pLat pLng"
    using covered_by_penalized [OF assms(1-3)] f by simp
  then have "\<And>acc. incLoopStep lat lng zs acc i = acc"
    using assms(4) by (simp add: incLoopStep_covered)
  then show ?thesis
    by (simp add: collect_def f)
qed

text \<open>
  Claim C3. Let a cell be penalized in step 1 of a scoring pass at \<open>(lat, lng)\<close>, and let a
  raw distress event \<open>s\<close> and a raw incident \<open>i\<close> lie at a point strictly inside the
  coverage circle of that cell (its centre and radius). Then the steps of the loops over
  raw events leave the accumulated penalty and the threats as they were at \<open>s\<close> and at
  \<open>i\<close>, and the pass gives the same result as the pass without them.
\<close>

theorem covered_event_adds_no_penalty:
  assumes "grid \<in> set grids" and "penalized lat lng grid"
      and "calculateDistance pLat pLng (snd (g_location grid)) (fst (g_location grid)) < gridRadius grid"
      and "sos_location s = Some (pLng, pLat)"
      and "inc_location i = Some (pLng, pLat)"
  shows "sosLoopStep lat lng (snd (snd (foldl (gridStep lat lng) (0, [], []) grids))) acc s = acc
       \<and> incLoopStep lat lng (snd (snd (foldl (gridStep lat lng) (0, [], []) grids))) acc i = acc
       \<and> collect lat lng grids zones (sos1 @ s # sos2) incs = collect lat lng grids zones (sos1 @ sos2) incs
       \<and> collect lat lng grids zones sos (incs1 @ i # incs2) = collect lat lng grids zones sos (incs1 @ incs2)
       \<and> scoreFrom lat lng grids zones (sos1 @ s # sos2) incs = scoreFrom lat lng grids zones (sos1 @ sos2) incs
       \<and> scoreFrom lat lng grids zones sos (incs1 @ i # incs2) = scoreFrom lat lng grids zones sos (incs1 @ incs2)"
proof -
  note c = covered_by_penalized [OF assms(1-3)]
  note a = collect_skip_sos [OF assms(1-4)]
  note b = collect_skip_inc [OF assms(1-3,5)]
  show ?thesis
    using sosLoopStep_covered [OF assms(4) c] incLoopStep_covered [OF assms(5) c]
    by (simp add: a b scoreFrom_def)
qed

lemma busy_penalized: "penalized 28 77 busyCell"
  by (simp add: penalized_def gridImpact_def gridDistance_def calculateDistance_same gridRadius_def
      calculateThreatImpact_def bandConfig_def busyCell_def)

theorem covered_event_adds_no_penalty_witness:
  "scoreFrom 28 77 [busyCell] [] [nearSos] [] = scoreFrom 28 77 [busyCell] [] [] []
   \<and> scoreFrom 28 77 [busyCell] [] [] [nearIncident] = scoreFrom 28 77 [busyCell] [] [] []
   \<and> safetyScore (scoreFrom 28 77 [busyCell] [] [nearSos] [nearIncident]) = 50"
proof -
  have d: "calculateDistance 28 77 (snd (g_location busyCell)) (fst (g_location busyCell))
             < gridRadius busyCell"
    by (simp add: busyCell_def calculateDistance_same gridRadius_def)
  have m: "busyCell \<in> set [busyCell]" by simp
  have s: "sos_location nearSos = Some (77, 28)" by (simp add: nearSos_def)
  have i: "inc_location nearIncident = Some (77, 28)" by (simp add: nearIncident_def)
  note t = covered_event_adds_no_penalty [OF m busy_penalized d s i]
  have e1: "scoreFrom 28 77 [busyCell] [] [nearSos] [] = scoreFrom 28 77 [busyCell] [] [] []"
    using t [of _ "[]" "[]" "[]" "[]" "[]" "[]" "[]"] by simp
  have e2: "scoreFrom 28 77 [busyCell] [] [] [nearIncident] = scoreFrom 28 77 [busyCell] [] [] []"
    using t [of _ "[]" "[]" "[]" "[]" "[]" "[]" "[]"] by simp
  have e3: "scoreFrom 28 77 [busyCell] [] [nearSos] [nearIncident]
              = scoreFrom 28 77 [busyCell] [] [] [nearIncident]"
    using t [of _ "[]" "[]" "[]" "[nearIncident]" "[]" "[]" "[]"] by simp
  have "safetyScore (scoreFrom 28 77 [busyCell] [] [] []) = 50"
    by (simp add: scoreFrom_def busy_collect BASE_SCORE_def js_round_def Let_def)
  then show ?thesis using e1 e2 e3 by simp
qed

text \<open>
  Claim C5. \<open>calculateSafetyScore\<close> is a total function into results: nothing is thrown to
  the caller. When any of the queries of the pass is rejected, the result is the neutral
  default: score 80, level GOOD, no threats.
\<close>

theorem calculateSafetyScore_absorbs_failure:
  assumes "(\<exists>x. nearbyRiskGrids e lat lng = Inl x)
         \<or> (\<exists>x. nearbyDangerZones e = Inl x)
         \<or> (\<exists>x. nearbySOS e lat lng (now - SOS_LOOKBACK_DAYS * 24 * 60 * 60 * 1000) = Inl x)
         \<or> (\<exists>x. nearbyIncidents e lat lng (now - INCIDENT_LOOKBACK_DAYS * 24 * 60 * 60 * 1000) = Inl x)"
  shows "calculateSafetyScore e now lat lng = safeDefault lat lng
       \<and> safetyScore (calculateSafetyScore e now lat lng) = 80
       \<and> safetyLevel (calculateSafetyScore e now lat lng) = GOOD
       \<and> threats (calculateSafetyScore e now lat lng) = []
       \<and> totalThreats (calculateSafetyScore e now lat lng) = 0
       \<and> nearestThreat (calculateSafetyScore e now lat lng) = None"
proof -
  from assms have "\<exists>x. tryScore e now lat lng = Inl x"
    by (auto simp: tryScore_def split: sum.splits)
  then have "calculateSafetyScore e now lat lng = safeDefault lat lng"
    by (auto simp: calculateSafetyScore_def)
  then show ?thesis
    by (simp add: safeDefault_def)
qed

theorem calculateSafetyScore_absorbs_failure_witness:
  "nearbySOS brokenEnv 28 77 (1700000000000 - SOS_LOOKBACK_DAYS * 24 * 60 * 60 * 1000) = Inl DbError
   \<and> safetyScore (calculateSafetyScore brokenEnv 1700000000000 28 77) = 80
   \<and> safetyLevel (calculateSafetyScore brokenEnv 1700000000000 28 77) = GOOD
   \<and> threats (calculateSafetyScore brokenEnv 1700000000000 28 77) = []"
proof -
  have f: "nearbySOS brokenEnv 28 77 (1700000000000 - SOS_LOOKBACK_DAYS * 24 * 60 * 60 * 1000) = Inl DbError"
    by (simp add: brokenEnv_def)
  then have "(\<exists>x. nearbyRiskGrids brokenEnv 28 77 = Inl x)
         \<or> (\<exists>x. nearbyDangerZones brokenEnv = Inl x)
         \<or> (\<exists>x. nearbySOS brokenEnv 28 77 (1700000000000 - SOS_LOOKBACK_DAYS * 24 * 60 * 60 * 1000) = Inl x)
         \<or> (\<exists>x. nearbyIncidents brokenEnv 28 77 (1700000000000 - INCIDENT_LOOKBACK_DAYS * 24 * 60 * 60 * 1000) = Inl x)"
    by blast
  from calculateSafetyScore_absorbs_failure [OF this] f show ?thesis by (simp add: safeDefault_def)
qed

section \<open>Properties of the dispatcher\<close>

lemma totalTourists_length: "totalTourists d = length (allSockets d)"
proof -
  have "\<And>n. foldl (\<lambda>n socketSet. n + length (snd socketSet)) n xs = n + length (concat (map snd xs))" for xs :: "(string \<times> socket list) list"
    by (induction xs) simp_all
  then show ?thesis by (simp add: totalTourists_def allSockets_def)
qed

lemma targeted_deliveries:
  "concat (map (\<lambda>entry. concat (map f (snd entry))) xs) = concat (map f (concat (map snd xs)))"
  by (induction xs) simp_all

lemma emit_targeted:
  assumes "io_ready d" "truthyStr (a_type a)" "truthyStr (a_title a)" "truthyStr (a_message a)"
      and "a_targetArea a = Some area"
  shows "emitAuthorityAlertToTourists d now aid a
           = Inr (concat (map (deliverTo area (touristAlertPayload now aid a)) (allSockets d)))"
proof (cases "totalTourists d = 0")
  case True
  then have "allSockets d = []" by (simp add: totalTourists_length)
  then show ?thesis
    using assms True by (simp add: emitAuthorityAlertToTourists_def)
next
  case False
  then show ?thesis
    using assms by (simp add: emitAuthorityAlertToTourists_def targeted_deliveries allSockets_def)
qed

lemma emit_broadcast:
  assumes "io_ready d" "truthyStr (a_type a)" "truthyStr (a_title a)" "truthyStr (a_message a)"
      and "a_targetArea a = None"
  shows "emitAuthorityAlertToTourists d now aid a
           = Inr (map (\<lambda>s. (s, touristAlertPayload now aid a)) (allSockets d))"
proof (cases "totalTourists d = 0")
  case True
  then have "allSockets d = []" by (simp add: totalTourists_length)
  then show ?thesis
    using assms True by (simp add: emitAuthorityAlertToTourists_def)
next
  case False
  then show ?thesis
    using assms by (simp add: emitAuthorityAlertToTourists_def)
qed

lemma deliverTo_sound:
  assumes "(s', p) \<in> set (deliverTo area payload s)"
  shows "s' = s \<and> (\<exists>la lo. sock_location s = Some \<lparr> loc_lat = Some la, loc_lng = Some lo \<rparr>
            \<and> la \<noteq> 0 \<and> lo \<noteq> 0
            \<and> calculateDistance (ta_lat area) (ta_lng area) la lo \<le> ta_radius area
            \<and> p = payload\<lparr> p_distanceFromEvent :=
                     Some (js_round (calculateDistance (ta_lat area) (ta_lng area) la lo)) \<rparr>)"
proof -
  from assms have h: "hasLocation s" and r: "distanceTo area s \<le> ta_radius area"
    and e: "s' = s" "p = payload\<lparr> p_distanceFromEvent := Some (js_round (distanceTo area s)) \<rparr>"
    by (auto simp: deliverTo_def split: if_splits)
  from h obtain l where l: "sock_location s = Some l" "truthyNum (loc_lat l)" "truthyNum (loc_lng l)"
    by (auto simp: hasLocation_def split: option.splits)
  then obtain la lo where c: "loc_lat l = Some la" "loc_lng l = Some lo" "la \<noteq> 0" "lo \<noteq> 0"
    by (auto simp: truthyNum_def)
  have leq: "l = \<lparr> loc_lat = Some la, loc_lng = Some lo \<rparr>"
    using c by (cases l) simp
  have d: "distanceTo area s = calculateDistance (ta_lat area) (ta_lng area) la lo"
    using l(1) c by (simp add: distanceTo_def)
  show ?thesis
    apply (rule conjI, rule e(1))
    apply (rule exI [of _ la], rule exI [of _ lo])
    using l(1) leq c(3,4) r e(2) unfolding d by simp
qed

lemma deliverTo_complete:
  assumes "sock_location s = Some \<lparr> loc_lat = Some la, loc_lng = Some lo \<rparr>"
      and "la \<noteq> 0" "lo \<noteq> 0"
      and "calculateDistance (ta_lat area) (ta_lng area) la lo \<le> ta_radius area"
  shows "deliverTo area payload s
           = [(s, payload\<lparr> p_distanceFromEvent :=
                     Some (js_round (calculateDistance (ta_lat area) (ta_lng area) la lo)) \<rparr>)]"
  using assms by (simp add: deliverTo_def hasLocation_def truthyNum_def distanceTo_def)

text \<open>
  Claim C6, amended. Let the dispatcher be initialised and the alert carry a type, a title
  and a message. With a target area of centre \<open>C\<close> and radius \<open>R\<close>, every delivery goes to a
  live connection whose stored location is at great-circle distance at most \<open>R\<close> from \<open>C\<close>
  and is tagged with that distance rounded to the metre, and every live connection whose
  stored latitude and longitude are both present and not zero and whose distance is at
  most \<open>R\<close> (exactly \<open>R\<close> included) gets such a delivery. With no target area, the alert
  goes to every live connection.
\<close>

theorem geofenced_broadcast:
  assumes "io_ready d" "truthyStr (a_type a)" "truthyStr (a_title a)" "truthyStr (a_message a)"
  shows "\<exists>ds. emitAuthorityAlertToTourists d now aid a = Inr ds \<and>
     (case a_targetArea a of
        None \<Rightarrow> ds = map (\<lambda>s. (s, touristAlertPayload now aid a)) (allSockets d)
      | Some area \<Rightarrow>
          (\<forall>(s, p) \<in> set ds. s \<in> set (allSockets d)
             \<and> (\<exists>la lo. sock_location s = Some \<lparr> loc_lat = Some la, loc_lng = Some lo \<rparr>
                  \<and> calculateDistance (ta_lat area) (ta_lng area) la lo \<le> ta_radius area
                  \<and> p = (touristAlertPayload now aid a)\<lparr> p_distanceFromEvent :=
                          Some (js_round (calculateDistance (ta_lat area) (ta_lng area) la lo)) \<rparr>))
        \<and> (\<forall>s \<in> set (allSockets d). \<forall>la lo.
              sock_location s = Some \<lparr> loc_lat = Some la, loc_lng = Some lo \<rparr>
              \<and> la \<noteq> 0 \<and> lo \<noteq> 0
              \<and> calculateDistance (ta_lat area) (ta_lng area) la lo \<le> ta_radius area
              \<longrightarrow> (s, (touristAlertPayload now aid a)\<lparr> p_distanceFromEvent :=
                          Some (js_round (calculateDistance (ta_lat area) (ta_lng area) la lo)) \<rparr>)
                    \<in> set ds))"
proof (cases "a_targetArea a")
  case None
  then show ?thesis using emit_broadcast [OF assms None] by simp
next
  case (Some area)
  let ?ds = "concat (map (deliverTo area (touristAlertPayload now aid a)) (allSockets d))"
  have e: "emitAuthorityAlertToTourists d now aid a = Inr ?ds"
    by (rule emit_targeted [OF assms Some])
  have snd1: "\<forall>(s, p) \<in> set ?ds. s \<in> set (allSockets d)
             \<and> (\<exists>la lo. sock_location s = Some \<lparr> loc_lat = Some la, loc_lng = Some lo \<rparr>
                  \<and> calculateDistance (ta_lat area) (ta_lng area) la lo \<le> ta_radius area
                  \<and> p = (touristAlertPayload now aid a)\<lparr> p_distanceFromEvent :=
                          Some (js_round (calculateDistance (ta_lat area) (ta_lng area) la lo)) \<rparr>)"
  proof (clarify)
    fix s p assume "(s, p) \<in> set ?ds"
    then obtain s0 where s0: "s0 \<in> set (allSockets d)"
      and m: "(s, p) \<in> set (deliverTo area (touristAlertPayload now aid a) s0)"
      by auto
    from deliverTo_sound [OF m] s0
    show "s \<in> set (allSockets d)
             \<and> (\<exists>la lo. sock_location s = Some \<lparr> loc_lat = Some la, loc_lng = Some lo \<rparr>
                  \<and> calculateDistance (ta_lat area) (ta_lng area) la lo \<le> ta_radius area
                  \<and> p = (touristAlertPayload now aid a)\<lparr> p_distanceFromEvent :=
                          Some (js_round (calculateDistance (ta_lat area) (ta_lng area) la lo)) \<rparr>)"
      by blast
  qed
  have cmp: "\<forall>s \<in> set (allSockets d). \<forall>la lo.
              sock_location s = Some \<lparr> loc_lat = Some la, loc_lng = Some lo \<rparr>
              \<and> la \<noteq> 0 \<and> lo \<noteq> 0
              \<and> calculateDistance (ta_lat area) (ta_lng area) la lo \<le> ta_radius area
              \<longrightarrow> (s, (touristAlertPayload now aid a)\<lparr> p_distanceFromEvent :=
                          Some (js_round (calculateDistance (ta_lat area) (ta_lng area) la lo)) \<rparr>)
                    \<in> set ?ds"
  proof (intro ballI allI impI)
    fix s la lo
    assume s: "s \<in> set (allSockets d)"
      and h: "sock_location s = Some \<lparr> loc_lat = Some la, loc_lng = Some lo \<rparr>
              \<and> la \<noteq> 0 \<and> lo \<noteq> 0
              \<and> calculateDistance (ta_lat area) (ta_lng area) la lo \<le> ta_radius area"
    from h have "deliverTo area (touristAlertPayload now aid a) s
           = [(s, (touristAlertPayload now aid a)\<lparr> p_distanceFromEvent :=
                     Some (js_round (calculateDistance (ta_lat area) (ta_lng area) la lo)) \<rparr>)]"
      by (intro deliverTo_complete) simp_all
    with s show "(s, (touristAlertPayload now aid a)\<lparr> p_distanceFromEvent :=
                          Some (js_round (calculateDistance (ta_lat area) (ta_lng area) la lo)) \<rparr>)
                    \<in> set ?ds"
      by (auto intro!: bexI [of _ s])
  qed
  show ?thesis
    using e snd1 cmp Some by simp
qed

lemma alertAt_valid:
  "truthyStr (a_type (alertAt lat lng r))" "truthyStr (a_title (alertAt lat lng r))"
  "truthyStr (a_message (alertAt lat lng r))"
  "a_targetArea (alertAt lat lng r) = Some \<lparr> ta_lat = lat, ta_lng = lng, ta_radius = r \<rparr>"
  by (simp_all add: alertAt_def truthyStr_def)

lemma example_sockets: "allSockets exampleDispatcher = [sockA, sockB, sockC]"
  by (simp add: allSockets_def exampleDispatcher_def)

theorem geofenced_broadcast_witness:
  "calculateDistance 28 77 28 77 = 0
   \<and> (\<exists>ds. emitAuthorityAlertToTourists exampleDispatcher 1700000000000 ''auth-alert-1'' (alertAt 28 77 0)
             = Inr ds
         \<and> (sockA, (touristAlertPayload 1700000000000 ''auth-alert-1'' (alertAt 28 77 0))
                     \<lparr> p_distanceFromEvent := Some 0 \<rparr>) \<in> set ds)"
proof -
  have io: "io_ready exampleDispatcher" by (simp add: exampleDispatcher_def)
  from geofenced_broadcast [of exampleDispatcher "alertAt 28 77 0" 1700000000000 "''auth-alert-1''",
      OF io alertAt_valid(1-3)]
  obtain ds where
    e: "emitAuthorityAlertToTourists exampleDispatcher 1700000000000 ''auth-alert-1'' (alertAt 28 77 0)
          = Inr ds"
    and c: "\<forall>s \<in> set (allSockets exampleDispatcher). \<forall>la lo.
              sock_location s = Some \<lparr> loc_lat = Some la, loc_lng = Some lo \<rparr>
              \<and> la \<noteq> 0 \<and> lo \<noteq> 0
              \<and> calculateDistance 28 77 la lo \<le> 0
              \<longrightarrow> (s, (touristAlertPayload 1700000000000 ''auth-alert-1'' (alertAt 28 77 0))
                         \<lparr> p_distanceFromEvent := Some (js_round (calculateDistance 28 77 la lo)) \<rparr>)
                    \<in> set ds"
    unfolding alertAt_valid(4) by auto
  have "sockA \<in> set (allSockets exampleDispatcher)" by (simp add: example_sockets)
  moreover have "sock_location sockA = Some \<lparr> loc_lat = Some 28, loc_lng = Some 77 \<rparr>"
    by (simp add: sockA_def)
  ultimately have "(sockA, (touristAlertPayload 1700000000000 ''auth-alert-1'' (alertAt 28 77 0))
                         \<lparr> p_distanceFromEvent := Some (js_round (calculateDistance 28 77 28 77)) \<rparr>)
                    \<in> set ds"
    using c calculateDistance_same [of 28 77] by force
  then show ?thesis
    using e by (auto simp: calculateDistance_same js_round_def)
qed

text \<open>
  The claim as first stated fails: a connection on the equator, at distance 0 from the
  centre, gets nothing; and an alert that lacks a title is refused with an error and
  delivered to nobody, whoever is in range.
\<close>

theorem geofenced_broadcast_counterexample:
  "sock_location sockB = Some \<lparr> loc_lat = Some 0, loc_lng = Some 77 \<rparr>
   \<and> calculateDistance 0 77 0 77 \<le> 1000
   \<and> emitAuthorityAlertToTourists \<lparr> io_ready = True, touristSockets = [(''T2'', [sockB])] \<rparr>
        1700000000000 ''auth-alert-2'' (alertAt 0 77 1000) = Inr []
   \<and> emitAuthorityAlertToTourists exampleDispatcher 1700000000000 ''auth-alert-3''
        ((alertAt 28 77 1000)\<lparr> a_title := None \<rparr>) = Inl MissingFields"
  by (simp add: sockB_def calculateDistance_same emitAuthorityAlertToTourists_def alertAt_def
      truthyStr_def totalTourists_def deliverTo_def hasLocation_def truthyNum_def
      exampleDispatcher_def)

text \<open>
  Claim C10. In a broadcast with a target area, a connection whose stored location is
  absent, or whose stored latitude or longitude is absent or equal to 0, gets no
  delivery, whatever its distance to the centre.
\<close>

theorem falsy_location_never_delivered:
  assumes "emitAuthorityAlertToTourists d now aid a = Inr ds"
      and "a_targetArea a = Some area"
      and "sock_location s = None
           \<or> (\<exists>l. sock_location s = Some l
                 \<and> (loc_lat l = None \<or> loc_lat l = Some 0 \<or> loc_lng l = None \<or> loc_lng l = Some 0))"
  shows "\<forall>p. (s, p) \<notin> set ds"
proof -
  have nl: "\<not> hasLocation s"
    using assms(3) by (auto simp: hasLocation_def truthyNum_def)
  have none: "\<And>payload. deliverTo area payload s = []"
    using nl by (simp add: deliverTo_def)
  have other: "\<And>payload s' p. (s, p) \<in> set (deliverTo area payload s') \<Longrightarrow> s' = s"
    by (auto simp: deliverTo_def split: if_splits)
  have "\<And>payload p xs. (s, p) \<notin> set (concat (map (deliverTo area payload) xs))"
    using none other by fastforce
  then show ?thesis
    using assms(1,2)
    by (auto simp: emitAuthorityAlertToTourists_def targeted_deliveries split: if_splits)
qed

theorem falsy_location_never_delivered_witness:
  "calculateDistance 0 77 0 77 \<le> 1000
   \<and> (\<exists>ds. emitAuthorityAlertToTourists exampleDispatcher 1700000000000 ''auth-alert-4''
              (alertAt 0 77 1000) = Inr ds
         \<and> (\<forall>p. (sockB, p) \<notin> set ds) \<and> (\<forall>p. (sockC, p) \<notin> set ds))"
proof -
  have io: "io_ready exampleDispatcher" by (simp add: exampleDispatcher_def)
  obtain ds where
    e: "emitAuthorityAlertToTourists exampleDispatcher 1700000000000 ''auth-alert-4'' (alertAt 0 77 1000)
          = Inr ds"
    using emit_targeted [OF io alertAt_valid] by blast
  have b: "sock_location sockB = None
           \<or> (\<exists>l. sock_location sockB = Some l
                 \<and> (loc_lat l = None \<or> loc_lat l = Some 0 \<or> loc_lng l = None \<or> loc_lng l = Some 0))"
    by (simp add: sockB_def)
  have c: "sock_location sockC = None
           \<or> (\<exists>l. sock_location sockC = Some l
                 \<and> (loc_lat l = None \<or> loc_lat l = Some 0 \<or> loc_lng l = None \<or> loc_lng l = Some 0))"
    by (simp add: sockC_def)
  from falsy_location_never_delivered [OF e alertAt_valid(4) b]
       falsy_location_never_delivered [OF e alertAt_valid(4) c] e
  show ?thesis by (simp add: calculateDistance_same)
qed

section \<open>Properties of the fallback store\<close>

lemma scanLog_append:
  "scanLog (xs @ ys) ident = (case scanLog xs ident of None \<Rightarrow> scanLog ys ident | Some p \<Rightarrow> Some p)"
  by (induction xs ident rule: scanLog.induct) auto

lemma scanLog_fresh_payload:
  assumes "scanLog xs (alertId p) = None"
  shows "scanLog (xs @ [LogEntry lv msg None, LogEntry ''info'' ''SOS_PAYLOAD'' (Some p)]) (alertId p) = Some p"
  using assms by (simp add: scanLog_append)

lemma scanLog_fresh_note:
  assumes "scanLog xs ident = None"
  shows "scanLog (xs @ [LogEntry lv msg None]) ident = None"
  using assms by (simp add: scanLog_append)





end
